theory Spec2Isabelle
  imports Complex_Main
begin

section \<open>Data model (models/conversion.py)\<close>

datatype ConversionStatus = PENDING | PROCESSING | COMPLETED | FAILED

text \<open>The \<^verbatim>\<open>.value\<close> of the string enum.\<close>

fun status_value :: "ConversionStatus \<Rightarrow> string" where
  "status_value PENDING = ''pending''"
| "status_value PROCESSING = ''processing''"
| "status_value COMPLETED = ''completed''"
| "status_value FAILED = ''failed''"

datatype ConversionFormat = WORD_TO_PDF | PDF_TO_WORD | TXT_TO_PDF | IMAGE_TO_PDF | EXCEL_TO_PDF

text \<open>
  \<^verbatim>\<open>ConversionJob\<close>. The field \<^verbatim>\<open>id\<close> is called \<open>job_id\<close> (\<open>id\<close> is the identity
  function of HOL). Sizes are byte counts (\<open>nat\<close>); Python floats (\<^verbatim>\<open>time.time()\<close>
  values and their differences) are modelled as reals.
\<close>

record ConversionJob =
  job_id :: string
  original_filename :: string
  converted_filename :: string
  from_format :: string
  to_format :: string
  status :: ConversionStatus
  file_size :: nat
  converted_file_size :: "nat option"
  conversion_time :: "real option"
  created_at :: real
  completed_at :: "real option"
  error_message :: "string option"
  download_url :: "string option"
  file_path :: "string option"
  converted_file_path :: "string option"

record ConversionResponse =
  r_success :: bool
  r_job_id :: string
  r_original_filename :: string
  r_converted_filename :: string
  r_file_size :: nat
  r_converted_file_size :: "nat option"
  r_conversion_time :: "real option"
  r_download_url :: string
  r_message :: string

text \<open>\<^verbatim>\<open>fastapi.HTTPException(status_code, detail)\<close>.\<close>

datatype HTTPException = HTTPException (status_code: nat) (detail: string)

section \<open>Strings, paths and identifiers\<close>

text \<open>Strings are byte strings; \<^verbatim>\<open>str.lower\<close> is modelled on the ASCII letters.\<close>

definition char_lower :: "char \<Rightarrow> char" where
  "char_lower c =
     (let n = (of_char c :: nat) in if 65 \<le> n \<and> n \<le> 90 then char_of (n + 32) else c)"

definition str_lower :: "string \<Rightarrow> string" where
  "str_lower s = map char_lower s"

text \<open>\<^verbatim>\<open>s.lstrip('.')\<close>\<close>

definition lstrip_dot :: "string \<Rightarrow> string" where
  "lstrip_dot s = dropWhile (\<lambda>c. c = CHR ''.'') s"

text \<open>\<^verbatim>\<open>sep.join(xs)\<close>\<close>

fun join :: "string \<Rightarrow> string list \<Rightarrow> string" where
  "join sep [] = []"
| "join sep [x] = x"
| "join sep (x # y # ys) = x @ sep @ join sep (y # ys)"

text \<open>\<^verbatim>\<open>s.split(c)\<close>: never empty, \<^verbatim>\<open>''.split('/') == ['']\<close>.\<close>

fun split_on :: "char \<Rightarrow> string \<Rightarrow> string list" where
  "split_on c [] = [[]]"
| "split_on c (x # xs) =
     (if x = c then [] # split_on c xs
      else (case split_on c xs of [] \<Rightarrow> [[x]] | p # ps \<Rightarrow> (x # p) # ps))"

text \<open>
  \<^verbatim>\<open>pathlib.PurePosixPath\<close>: the parts of a path are its components between slashes,
  without the empty ones and without \<^verbatim>\<open>'.'\<close>; \<^verbatim>\<open>name\<close> is the last part (or \<^verbatim>\<open>''\<close>);
  \<^verbatim>\<open>suffix\<close> and \<^verbatim>\<open>stem\<close> cut the name at its last dot when that dot is neither the
  first nor the last character of the name.
\<close>

definition posix_parts :: "string \<Rightarrow> string list" where
  "posix_parts p = filter (\<lambda>x. x \<noteq> [] \<and> x \<noteq> ''.'') (split_on CHR ''/'' p)"

definition path_name :: "string \<Rightarrow> string" where
  "path_name p = (case posix_parts p of [] \<Rightarrow> [] | x # xs \<Rightarrow> last (x # xs))"

text \<open>\<^verbatim>\<open>s.rfind(c)\<close>: the index of the last occurrence, or \<open>-1\<close>.\<close>

definition rfind :: "char \<Rightarrow> string \<Rightarrow> int" where
  "rfind c s =
     (if c \<in> set s then int (length s) - 1 - int (length (takeWhile (\<lambda>x. x \<noteq> c) (rev s)))
      else - 1)"

definition path_suffix :: "string \<Rightarrow> string" where
  "path_suffix p =
     (let name = path_name p; i = rfind CHR ''.'' name
      in if 0 < i \<and> i < int (length name) - 1 then drop (nat i) name else [])"

definition path_stem :: "string \<Rightarrow> string" where
  "path_stem p =
     (let name = path_name p; i = rfind CHR ''.'' name
      in if 0 < i \<and> i < int (length name) - 1 then take (nat i) name else name)"

text \<open>
  \<^verbatim>\<open>str(Path(dir) / rel)\<close> for a directory \<open>dir\<close> already in normal form: an absolute
  \<open>rel\<close> replaces \<open>dir\<close> (exactly two leading slashes are kept), a relative one is
  appended part by part.
\<close>

definition path_join :: "string \<Rightarrow> string \<Rightarrow> string" where
  "path_join dir rel =
     (if take 1 rel = ''/''
      then (if take 2 rel = ''//'' \<and> take 3 rel \<noteq> ''///'' then ''/'' else [])
             @ (if posix_parts rel = [] then ''/'' else concat (map (\<lambda>x. ''/'' @ x) (posix_parts rel)))
      else dir @ concat (map (\<lambda>x. ''/'' @ x) (posix_parts rel)))"

text \<open>
  \<^verbatim>\<open>str(uuid.uuid4())\<close>: the 128-bit value in lower-case hexadecimal, grouped 8-4-4-4-12.
  The random value itself is an input of the model.
\<close>

definition hex_digit :: "nat \<Rightarrow> char" where
  "hex_digit d = ''0123456789abcdef'' ! (d mod 16)"

fun hex_digits :: "nat \<Rightarrow> nat \<Rightarrow> string" where
  "hex_digits 0 n = []"
| "hex_digits (Suc k) n = hex_digits k (n div 16) @ [hex_digit n]"

definition uuid_str :: "nat \<Rightarrow> string" where
  "uuid_str u =
     (let h = hex_digits 32 u
      in take 8 h @ ''-'' @ take 4 (drop 8 h) @ ''-'' @ take 4 (drop 12 h) @ ''-''
           @ take 4 (drop 16 h) @ ''-'' @ drop 20 h)"

text \<open>
  \<^verbatim>\<open>round(x, 2)\<close>: to the nearest multiple of 1/100, ties to the even one.
\<close>

definition round_2dp :: "real \<Rightarrow> real" where
  "round_2dp x =
     (let y = x * 100; f = \<lfloor>y\<rfloor>; d = y - of_int f
      in of_int (if d < 1 / 2 then f else if 1 / 2 < d then f + 1
                 else if even f then f else f + 1) / 100)"

section \<open>The file system and the job registry\<close>

text \<open>
  A path holds a regular file of some size or a directory. \<^verbatim>\<open>os.remove\<close> refuses a
  directory; \<^verbatim>\<open>os.path.getsize\<close> raises on a missing path. An \<^verbatim>\<open>OSError\<close> is modelled
  by its message \<^verbatim>\<open>str(e)\<close>, the path in quotes as Python prints it.
\<close>

definition quoted :: "string \<Rightarrow> string" where
  "quoted p = [CHR 0x27] @ p @ [CHR 0x27]"

datatype node = File nat | Dir nat

fun st_size :: "node \<Rightarrow> nat" where
  "st_size (File n) = n"
| "st_size (Dir n) = n"

type_synonym filesystem = "string \<rightharpoonup> node"

definition os_path_exists :: "filesystem \<Rightarrow> string \<Rightarrow> bool" where
  "os_path_exists fs p = (fs p \<noteq> None)"

definition os_path_getsize :: "filesystem \<Rightarrow> string \<Rightarrow> string + nat" where
  "os_path_getsize fs p =
     (case fs p of
        None \<Rightarrow> Inl (''[Errno 2] No such file or directory: '' @ quoted p)
      | Some n \<Rightarrow> Inr (st_size n))"

definition os_remove :: "string \<Rightarrow> filesystem \<Rightarrow> string + filesystem" where
  "os_remove p fs =
     (case fs p of
        None \<Rightarrow> Inl (''[Errno 2] No such file or directory: '' @ quoted p)
      | Some (Dir n) \<Rightarrow> Inl (''[Errno 21] Is a directory: '' @ quoted p)
      | Some (File n) \<Rightarrow> Inr (fs(p := None)))"

text \<open>
  The module state: the dictionary \<^verbatim>\<open>conversion_jobs\<close> and the disk.
\<close>

record state =
  conversion_jobs :: "string \<rightharpoonup> ConversionJob"
  disk :: filesystem

definition ALLOWED_FORMATS :: "ConversionFormat \<Rightarrow> string list" where
  "ALLOWED_FORMATS t =
     (case t of
        WORD_TO_PDF \<Rightarrow> [''doc'', ''docx'']
      | PDF_TO_WORD \<Rightarrow> [''pdf'']
      | TXT_TO_PDF \<Rightarrow> [''txt'']
      | IMAGE_TO_PDF \<Rightarrow> [''jpg'', ''jpeg'', ''png'', ''gif'', ''bmp'', ''tiff'']
      | EXCEL_TO_PDF \<Rightarrow> [''xls'', ''xlsx'', ''csv''])"

definition CONVERSION_DIR :: string where
  "CONVERSION_DIR = ''/tmp/conversions''"

section \<open>ConversionService (services/conversion\_service.py)\<close>

definition generate_unique_filename :: "nat \<Rightarrow> string \<Rightarrow> string \<Rightarrow> string" where
  "generate_unique_filename u original_name new_extension =
     path_stem original_name @ ''_'' @ take 8 (uuid_str u) @ ''.'' @ new_extension"

text \<open>
  An upload is its declared file name (taken to be present) and the number of bytes of
  its content. \<^verbatim>\<open>save_uploaded_file\<close> opens the target for writing and writes the content.
  What the operating system does is an input: the open fails (nothing changes), the
  write fails (the file is left with the bytes written so far), or both succeed.
\<close>

record UploadFile =
  filename :: string
  content_length :: nat

datatype save_outcome = Saved | OpenFailed string | WriteFailed string nat

definition save_uploaded_file ::
  "save_outcome \<Rightarrow> UploadFile \<Rightarrow> string \<Rightarrow> filesystem \<Rightarrow> (string + string) \<times> filesystem" where
  "save_uploaded_file io file fname fs =
     (let fpath = path_join CONVERSION_DIR fname
      in case io of
           OpenFailed e \<Rightarrow> (Inl e, fs)
         | WriteFailed e n \<Rightarrow> (Inl e, fs(fpath \<mapsto> File n))
         | Saved \<Rightarrow> (Inr fpath, fs(fpath \<mapsto> File (content_length file))))"

text \<open>\<^verbatim>\<open>cleanup_file\<close>: remove the file if it exists; every error is swallowed.\<close>

definition cleanup_file :: "string \<Rightarrow> filesystem \<Rightarrow> filesystem" where
  "cleanup_file fpath fs =
     (if os_path_exists fs fpath
      then (case os_remove fpath fs of Inl e \<Rightarrow> fs | Inr fs' \<Rightarrow> fs')
      else fs)"

definition validate_file :: "filesystem \<Rightarrow> string \<Rightarrow> string list \<Rightarrow> bool \<times> string" where
  "validate_file fs fpath allowed_extensions =
     (let file_ext = lstrip_dot (str_lower (path_suffix fpath))
      in if file_ext \<notin> set allowed_extensions
         then (False, ''Invalid file type. Allowed: '' @ join '', '' allowed_extensions)
         else (case os_path_getsize fs fpath of
                 Inl e \<Rightarrow> (False, ''File validation error: '' @ e)
               | Inr fsize \<Rightarrow>
                   if fsize > 50 * 1024 * 1024 then (False, ''File size exceeds 50MB limit'')
                   else if \<not> os_path_exists fs fpath then (False, ''File not found'')
                   else (True, ''Valid file'')))"

text \<open>
  An exception raised inside the background task is its message \<^verbatim>\<open>str(e)\<close> and the side
  of the class hierarchy it is on: an instance of \<^verbatim>\<open>Exception\<close>, which the handler
  \<^verbatim>\<open>except Exception\<close> catches, or one of \<^verbatim>\<open>BaseException\<close> only
  (\<^verbatim>\<open>asyncio.CancelledError\<close>, \<^verbatim>\<open>KeyboardInterrupt\<close>, \<^verbatim>\<open>SystemExit\<close>), which it does not.
\<close>

datatype py_exception = Exception string | BaseException string

text \<open>
  The five conversion routines call document libraries and external programs. They are
  one capability here: given its kind, the two paths and the disk, it returns a boolean
  or raises, and leaves the disk in some state. The routines catch \<^verbatim>\<open>Exception\<close>
  themselves and return \<^verbatim>\<open>False\<close>; what is raised at the \<^verbatim>\<open>await\<close> of a routine is
  left open here all the same. Every theorem below holds for every such capability.
\<close>

datatype capability = word_to_pdf | pdf_to_word | text_to_pdf | image_to_pdf | excel_to_pdf

datatype outcome = Returns bool | Raises py_exception

type_synonym converter =
  "capability \<Rightarrow> string option \<Rightarrow> string option \<Rightarrow> filesystem \<Rightarrow> outcome \<times> filesystem"

section \<open>The background task (routes/conversion.py, process\_conversion)\<close>

text \<open>Lines 37-38: the job becomes PROCESSING and is stored under its id.\<close>

definition process_begin :: "ConversionJob \<Rightarrow> state \<Rightarrow> ConversionJob \<times> state" where
  "process_begin job s =
     (let job1 = job\<lparr>status := PROCESSING\<rparr>
      in (job1, s\<lparr>conversion_jobs := (conversion_jobs s)(job_id job1 \<mapsto> job1)\<rparr>))"

text \<open>Lines 43-52: the routine chosen by the two format tags, if any.\<close>

definition select_converter :: "ConversionJob \<Rightarrow> capability option" where
  "select_converter job =
     (if from_format job = ''word'' \<and> to_format job = ''pdf'' then Some word_to_pdf
      else if from_format job = ''pdf'' \<and> to_format job = ''word'' then Some pdf_to_word
      else if from_format job = ''txt'' \<and> to_format job = ''pdf'' then Some text_to_pdf
      else if from_format job = ''image'' \<and> to_format job = ''pdf'' then Some image_to_pdf
      else if from_format job = ''excel'' \<and> to_format job = ''pdf'' then Some excel_to_pdf
      else None)"

text \<open>
  Lines 40-52: \<^verbatim>\<open>success\<close> starts as \<^verbatim>\<open>False\<close>; the routine chosen by the format tags is
  awaited on the job's two paths.
\<close>

definition invoke_converter ::
  "converter \<Rightarrow> ConversionJob \<Rightarrow> filesystem \<Rightarrow> outcome \<times> filesystem" where
  "invoke_converter conv job fs =
     (case select_converter job of
        None \<Rightarrow> (Returns False, fs)
      | Some c \<Rightarrow> conv c (file_path job) (converted_file_path job) fs)"

text \<open>
  Lines 54-62, still inside \<^verbatim>\<open>try\<close>: the result is the exception raised there, if any,
  and the job as mutated up to that point. \<^verbatim>\<open>os.path.exists(None)\<close> raises TypeError,
  and is only evaluated when \<open>success\<close> is true; TypeError and OSError are instances of
  \<^verbatim>\<open>Exception\<close>.
\<close>

definition update_job_status ::
  "real \<Rightarrow> real \<Rightarrow> bool \<Rightarrow> filesystem \<Rightarrow> ConversionJob
     \<Rightarrow> py_exception option \<times> ConversionJob" where
  "update_job_status start_time t_done success fs job =
     (if success
      then (case converted_file_path job of
              None \<Rightarrow>
                (Some (Exception
                   ''stat: path should be string, bytes, os.PathLike or integer, not NoneType''),
                 job)
            | Some p \<Rightarrow>
                if os_path_exists fs p
                then (let job1 = job\<lparr>status := COMPLETED\<rparr>
                      in case os_path_getsize fs p of
                           Inl e \<Rightarrow> (Some (Exception e), job1)
                         | Inr n \<Rightarrow>
                             (None, job1\<lparr>converted_file_size := Some n,
                                         conversion_time := Some (round_2dp (t_done - start_time)),
                                         download_url := Some (''/api/download/'' @ job_id job1)\<rparr>))
                else (None, job\<lparr>status := FAILED, error_message := Some ''Conversion failed''\<rparr>))
      else (None, job\<lparr>status := FAILED, error_message := Some ''Conversion failed''\<rparr>))"

text \<open>
  \<^verbatim>\<open>except Exception as e\<close> (lines 64-66): an instance of \<^verbatim>\<open>Exception\<close> is caught and
  the job becomes FAILED; any other exception stays pending and leaves the function
  once \<^verbatim>\<open>finally\<close> has run.
\<close>

definition except_Exception ::
  "py_exception option \<times> ConversionJob \<Rightarrow> py_exception option \<times> ConversionJob" where
  "except_Exception r =
     (case r of
        (None, job) \<Rightarrow> (None, job)
      | (Some (Exception e), job) \<Rightarrow>
          (None, job\<lparr>status := FAILED, error_message := Some (''Conversion error: '' @ e)\<rparr>)
      | (Some (BaseException e), job) \<Rightarrow> (Some (BaseException e), job))"

text \<open>
  The \<^verbatim>\<open>try\<close> body from the return of the awaited routine on: an exception of the
  routine surfaces at the \<^verbatim>\<open>await\<close>, a returned boolean goes through lines 54-62.
\<close>

definition try_body ::
  "real \<Rightarrow> real \<Rightarrow> outcome \<Rightarrow> filesystem \<Rightarrow> ConversionJob
     \<Rightarrow> py_exception option \<times> ConversionJob" where
  "try_body start_time t_done out fs job =
     (case out of
        Raises e \<Rightarrow> (Some e, job)
      | Returns success \<Rightarrow> update_job_status start_time t_done success fs job)"

text \<open>
  What runs once the awaited routine is back: the rest of the \<^verbatim>\<open>try\<close> body, the
  handler and the \<^verbatim>\<open>finally\<close> block (lines 69-70), which runs whether or not an
  exception is pending. The first component of the result is the exception that leaves
  the function, if any.
\<close>

definition process_finish ::
  "real \<Rightarrow> real \<Rightarrow> real \<Rightarrow> outcome \<Rightarrow> ConversionJob \<Rightarrow> state
     \<Rightarrow> py_exception option \<times> ConversionJob \<times> state" where
  "process_finish start_time t_done t_final out job s =
     (let (pending, job2) = except_Exception (try_body start_time t_done out (disk s) job);
          job3 = job2\<lparr>completed_at := Some t_final\<rparr>
      in (pending, job3, s\<lparr>conversion_jobs := (conversion_jobs s)(job_id job3 \<mapsto> job3)\<rparr>))"

definition process_conversion ::
  "converter \<Rightarrow> real \<Rightarrow> real \<Rightarrow> real \<Rightarrow> ConversionJob \<Rightarrow> state
     \<Rightarrow> py_exception option \<times> ConversionJob \<times> state" where
  "process_conversion conv start_time t_done t_final job s =
     (let (job1, s1) = process_begin job s;
          (out, fs') = invoke_converter conv job1 (disk s1)
      in process_finish start_time t_done t_final out job1 (s1\<lparr>disk := fs'\<rparr>))"

section \<open>Submission (routes/conversion.py, handle\_conversion and the five routes)\<close>

text \<open>
  What a submission takes from its environment: the two random UUIDs (the job's id and
  the one whose first eight characters go into the output file name), the creation
  time, and what the operating system does with the write of the upload.
\<close>

record submit_env =
  job_uuid :: nat
  name_uuid :: nat
  now :: real
  io :: save_outcome

text \<open>
  The result is the response or the \<^verbatim>\<open>HTTPException\<close> raised, the list
  \<^verbatim>\<open>background_tasks\<close> (the jobs handed to \<^verbatim>\<open>process_conversion\<close>) and the state.
\<close>

definition handle_conversion ::
  "submit_env \<Rightarrow> UploadFile \<Rightarrow> ConversionJob list \<Rightarrow> ConversionFormat \<Rightarrow> string \<Rightarrow> string
     \<Rightarrow> state \<Rightarrow> (HTTPException + ConversionResponse) \<times> ConversionJob list \<times> state" where
  "handle_conversion env file background_tasks conversion_type from_fmt to_fmt s =
     (let file_ext = lstrip_dot (str_lower (path_suffix (filename file)));
          allowed_extensions = ALLOWED_FORMATS conversion_type
      in if file_ext \<notin> set allowed_extensions
         then (Inl (HTTPException 400
                 (''Invalid file type. Supported formats: '' @ join '', '' allowed_extensions)),
               background_tasks, s)
         else
           (let job = \<lparr>job_id = uuid_str (job_uuid env),
                       original_filename = filename file,
                       converted_filename =
                         generate_unique_filename (name_uuid env) (filename file)
                           (if to_fmt = ''word'' then ''docx'' else to_fmt),
                       from_format = from_fmt,
                       to_format = to_fmt,
                       status = PENDING,
                       file_size = 0,
                       converted_file_size = None,
                       conversion_time = None,
                       created_at = now env,
                       completed_at = None,
                       error_message = None,
                       download_url = None,
                       file_path = None,
                       converted_file_path = None\<rparr>
            in case save_uploaded_file (io env) file (job_id job @ ''_'' @ original_filename job)
                      (disk s) of
                 (Inl e, fs1) \<Rightarrow>
                   (Inl (HTTPException 500 (''Conversion failed: '' @ e)),
                    background_tasks, s\<lparr>disk := fs1\<rparr>)
               | (Inr p, fs1) \<Rightarrow>
                   (let job1 = job\<lparr>file_path := Some p\<rparr>
                    in case os_path_getsize fs1 p of
                         Inl e \<Rightarrow>
                           (Inl (HTTPException 500 (''Conversion failed: '' @ e)),
                            background_tasks,
                            s\<lparr>disk := (if p \<noteq> [] then cleanup_file p fs1 else fs1)\<rparr>)
                       | Inr n \<Rightarrow>
                           (let job2 = job1\<lparr>file_size := n\<rparr>;
                                (is_valid, validation_message) =
                                  validate_file fs1 p allowed_extensions
                            in if \<not> is_valid
                               then (Inl (HTTPException 400 validation_message),
                                     background_tasks, s\<lparr>disk := cleanup_file p fs1\<rparr>)
                               else
                                 (let job3 = job2\<lparr>converted_file_path :=
                                        Some (path_join ''/tmp/conversions''
                                                (converted_filename job2))\<rparr>
                                  in (Inr \<lparr>r_success = True,
                                           r_job_id = job_id job3,
                                           r_original_filename = original_filename job3,
                                           r_converted_filename = converted_filename job3,
                                           r_file_size = file_size job3,
                                           r_converted_file_size = None,
                                           r_conversion_time = None,
                                           r_download_url = ''/api/download/'' @ job_id job3,
                                           r_message = ''Conversion started successfully''\<rparr>,
                                      background_tasks @ [job3],
                                      s\<lparr>conversion_jobs := (conversion_jobs s)(job_id job3 \<mapsto> job3),
                                        disk := fs1\<rparr>))))))"

definition convert_word_to_pdf ::
  "submit_env \<Rightarrow> ConversionJob list \<Rightarrow> UploadFile \<Rightarrow> state
     \<Rightarrow> (HTTPException + ConversionResponse) \<times> ConversionJob list \<times> state" where
  "convert_word_to_pdf env background_tasks file s =
     handle_conversion env file background_tasks WORD_TO_PDF ''word'' ''pdf'' s"

definition convert_pdf_to_word ::
  "submit_env \<Rightarrow> ConversionJob list \<Rightarrow> UploadFile \<Rightarrow> state
     \<Rightarrow> (HTTPException + ConversionResponse) \<times> ConversionJob list \<times> state" where
  "convert_pdf_to_word env background_tasks file s =
     handle_conversion env file background_tasks PDF_TO_WORD ''pdf'' ''word'' s"

definition convert_txt_to_pdf ::
  "submit_env \<Rightarrow> ConversionJob list \<Rightarrow> UploadFile \<Rightarrow> state
     \<Rightarrow> (HTTPException + ConversionResponse) \<times> ConversionJob list \<times> state" where
  "convert_txt_to_pdf env background_tasks file s =
     handle_conversion env file background_tasks TXT_TO_PDF ''txt'' ''pdf'' s"

definition convert_image_to_pdf ::
  "submit_env \<Rightarrow> ConversionJob list \<Rightarrow> UploadFile list \<Rightarrow> state
     \<Rightarrow> (HTTPException + ConversionResponse) \<times> ConversionJob list \<times> state" where
  "convert_image_to_pdf env background_tasks files s =
     (case files of
        [] \<Rightarrow> (Inl (HTTPException 400 ''No files provided''), background_tasks, s)
      | file # rest \<Rightarrow>
          handle_conversion env file background_tasks IMAGE_TO_PDF ''image'' ''pdf'' s)"

definition convert_excel_to_pdf ::
  "submit_env \<Rightarrow> ConversionJob list \<Rightarrow> UploadFile \<Rightarrow> state
     \<Rightarrow> (HTTPException + ConversionResponse) \<times> ConversionJob list \<times> state" where
  "convert_excel_to_pdf env background_tasks file s =
     handle_conversion env file background_tasks EXCEL_TO_PDF ''excel'' ''pdf'' s"

section \<open>Status, download and cleanup (routes/conversion.py)\<close>

record StatusResponse =
  st_job_id :: string
  st_status :: string
  st_progress :: nat
  st_original_filename :: string
  st_converted_filename :: string
  st_conversion_time :: "real option"
  st_error_message :: "string option"
  st_download_url :: "string option"

definition get_conversion_status :: "string \<Rightarrow> state \<Rightarrow> HTTPException + StatusResponse" where
  "get_conversion_status jid s =
     (case conversion_jobs s jid of
        None \<Rightarrow> Inl (HTTPException 404 ''Conversion job not found'')
      | Some job \<Rightarrow>
          Inr \<lparr>st_job_id = job_id job,
               st_status = status_value (status job),
               st_progress = (if status job = COMPLETED then 100
                              else if status job = PROCESSING then 50 else 0),
               st_original_filename = original_filename job,
               st_converted_filename = converted_filename job,
               st_conversion_time = conversion_time job,
               st_error_message = error_message job,
               st_download_url = (if status job = COMPLETED then download_url job else None)\<rparr>)"

text \<open>\<^verbatim>\<open>FileResponse(path, filename, media_type)\<close>: the stream of the file at \<open>path\<close>.\<close>

record FileResponse =
  fr_path :: "string option"
  fr_filename :: string
  fr_media_type :: string

text \<open>
  \<^verbatim>\<open>os.path.exists(job.converted_file_path)\<close> with the path \<^verbatim>\<open>None\<close> raises TypeError,
  which no handler of the route catches: the framework answers 500.
\<close>

definition download_converted_file :: "string \<Rightarrow> state \<Rightarrow> HTTPException + FileResponse" where
  "download_converted_file jid s =
     (case conversion_jobs s jid of
        None \<Rightarrow> Inl (HTTPException 404 ''Conversion job not found'')
      | Some job \<Rightarrow>
          if status job \<noteq> COMPLETED
          then Inl (HTTPException 400 ''Conversion not completed yet'')
          else (case converted_file_path job of
                  None \<Rightarrow> Inl (HTTPException 500 ''Internal Server Error'')
                | Some p \<Rightarrow>
                    if \<not> os_path_exists (disk s) p
                    then Inl (HTTPException 404 ''Converted file not found'')
                    else Inr \<lparr>fr_path = converted_file_path job,
                              fr_filename = converted_filename job,
                              fr_media_type = ''application/octet-stream''\<rparr>))"

text \<open>\<^verbatim>\<open>if job.file_path:\<close> is false for \<^verbatim>\<open>None\<close> and for the empty string.\<close>

definition cleanup_if_set :: "string option \<Rightarrow> filesystem \<Rightarrow> filesystem" where
  "cleanup_if_set path fs =
     (case path of None \<Rightarrow> fs | Some p \<Rightarrow> if p \<noteq> [] then cleanup_file p fs else fs)"

definition cleanup_conversion_files :: "string \<Rightarrow> state \<Rightarrow> (HTTPException + string) \<times> state" where
  "cleanup_conversion_files jid s =
     (case conversion_jobs s jid of
        None \<Rightarrow> (Inl (HTTPException 404 ''Conversion job not found''), s)
      | Some job \<Rightarrow>
          (let fs1 = cleanup_if_set (file_path job) (disk s);
               fs2 = cleanup_if_set (converted_file_path job) fs1
           in (Inr ''Files cleaned up successfully'',
               s\<lparr>conversion_jobs := (conversion_jobs s)(jid := None), disk := fs2\<rparr>)))"

section \<open>The service as a transition system\<close>

text \<open>
  Requests and background tasks interleave at the \<^verbatim>\<open>await\<close> of the conversion routine.
  The system state is the module state together with the tasks that were added and have
  not started (\<open>queued\<close>), the tasks suspended at the routine with their local
  \<^verbatim>\<open>start_time\<close> (\<open>running\<close>), and the job ids drawn so far (\<open>issued\<close>):
  \<^verbatim>\<open>uuid4\<close> is taken never to repeat an id.

  A submission is one step: until it stores its job it touches nothing but its own
  scratch file. A step is a submission, the start of a queued task (up to the \<^verbatim>\<open>await\<close>, or to its
  end when no routine matches the format tags), the end of a suspended task's routine
  with any outcome (it returns, it raises, the task is cancelled) and any effect on the
  disk, or a cleanup request. Status and download
  requests read the state and do not change it.
\<close>

record system =
  st :: state
  queued :: "ConversionJob list"
  running :: "(ConversionJob \<times> real) list"
  issued :: "string set"

definition initial :: "filesystem \<Rightarrow> system" where
  "initial fs =
     \<lparr>st = \<lparr>conversion_jobs = Map.empty, disk = fs\<rparr>, queued = [], running = [], issued = {}\<rparr>"

inductive step :: "system \<Rightarrow> system \<Rightarrow> bool" where
  submit:
    "uuid_str (job_uuid env) \<notin> issued w \<Longrightarrow>
     handle_conversion env file [] conversion_type from_fmt to_fmt (st w) = (res, tasks, s') \<Longrightarrow>
     step w (w\<lparr>st := s', queued := queued w @ tasks,
               issued := issued w \<union> job_id ` set tasks\<rparr>)"
| task_begin:
    "job \<in> set (queued w) \<Longrightarrow> select_converter job \<noteq> None \<Longrightarrow>
     process_begin job (st w) = (job1, s1) \<Longrightarrow>
     step w (w\<lparr>st := s1, queued := remove1 job (queued w),
               running := running w @ [(job1, start_time)]\<rparr>)"
| task_direct:
    "job \<in> set (queued w) \<Longrightarrow> select_converter job = None \<Longrightarrow>
     process_conversion conv start_time t_done t_final job (st w) = (exn, job', s') \<Longrightarrow>
     step w (w\<lparr>st := s', queued := remove1 job (queued w)\<rparr>)"
| task_end:
    "(job, start_time) \<in> set (running w) \<Longrightarrow>
     process_finish start_time t_done t_final out job ((st w)\<lparr>disk := fs'\<rparr>) = (exn, job', s') \<Longrightarrow>
     step w (w\<lparr>st := s', running := remove1 (job, start_time) (running w)\<rparr>)"
| cleanup:
    "cleanup_conversion_files jid (st w) = (res, s') \<Longrightarrow> step w (w\<lparr>st := s'\<rparr>)"

inductive reachable :: "system \<Rightarrow> bool" where
  start: "reachable (initial fs)"
| after: "reachable w \<Longrightarrow> step w w' \<Longrightarrow> reachable w'"


text \<open>Whether a background task of the job \<open>jid\<close> has still to start or to finish.\<close>

definition in_flight :: "system \<Rightarrow> string \<Rightarrow> bool" where
  "in_flight w jid = (jid \<in> job_id ` set (queued w) \<or> jid \<in> (job_id \<circ> fst) ` set (running w))"

section \<open>The errors of the interface\<close>

text \<open>
  The names the specification gives to the \<^verbatim>\<open>HTTPException\<close>s raised by the routes.
\<close>

definition InvalidFormat :: "ConversionFormat \<Rightarrow> HTTPException" where
  "InvalidFormat t =
     HTTPException 400 (''Invalid file type. Supported formats: '' @ join '', '' (ALLOWED_FORMATS t))"

definition FileTooLarge :: HTTPException where
  "FileTooLarge = HTTPException 400 ''File size exceeds 50MB limit''"

definition JobNotFound :: HTTPException where
  "JobNotFound = HTTPException 404 ''Conversion job not found''"

definition NotReady :: HTTPException where
  "NotReady = HTTPException 400 ''Conversion not completed yet''"

definition FileMissing :: HTTPException where
  "FileMissing = HTTPException 404 ''Converted file not found''"

section \<open>Invariants of the transition system\<close>

text \<open>What holds of every job record the service stores.\<close>

definition job_ok :: "ConversionJob \<Rightarrow> bool" where
  "job_ok j =
     (((download_url j \<noteq> None) = (status j = COMPLETED))
      \<and> (status j = COMPLETED \<longrightarrow> converted_file_path j \<noteq> None \<and> converted_file_size j \<noteq> None))"

definition task_ids :: "system \<Rightarrow> string list" where
  "task_ids w = map job_id (queued w) @ map (job_id \<circ> fst) (running w)"

text \<open>
  A registry entry agrees with the task of its job: PENDING while the task is queued,
  PROCESSING while it is suspended at the routine, no longer PENDING once no task is left
  (COMPLETED or FAILED, or still PROCESSING when the task was ended by an exception that
  the handler does not catch).
\<close>

definition entry_ok :: "system \<Rightarrow> string \<Rightarrow> ConversionJob \<Rightarrow> bool" where
  "entry_ok w jid j =
     (job_id j = jid \<and> job_ok j \<and> jid \<in> issued w
      \<and> (jid \<in> job_id ` set (queued w) \<longrightarrow> status j = PENDING)
      \<and> (jid \<in> (job_id \<circ> fst) ` set (running w) \<longrightarrow> status j = PROCESSING)
      \<and> (\<not> in_flight w jid \<longrightarrow> status j \<noteq> PENDING))"

definition tasks_ok :: "system \<Rightarrow> bool" where
  "tasks_ok w =
     ((\<forall>j \<in> set (queued w). status j = PENDING \<and> download_url j = None \<and> job_id j \<in> issued w)
      \<and> (\<forall>jt \<in> set (running w). status (fst jt) = PROCESSING \<and> download_url (fst jt) = None
             \<and> job_id (fst jt) \<in> issued w))"

definition consistent :: "system \<Rightarrow> bool" where
  "consistent w =
     ((\<forall>jid j. conversion_jobs (st w) jid = Some j \<longrightarrow> entry_ok w jid j)
      \<and> tasks_ok w \<and> distinct (task_ids w))"

text \<open>
  How far the background task of a job has come (0 queued, 1 suspended at the routine,
  2 no task left), and the order in which a job's task and registry entry can change:
  the task only moves on, and once it is over the entry can only be removed.
\<close>

definition phase :: "system \<Rightarrow> string \<Rightarrow> nat" where
  "phase w jid =
     (if jid \<in> job_id ` set (queued w) then 0
      else if jid \<in> (job_id \<circ> fst) ` set (running w) then 1 else 2)"

definition advance :: "system \<Rightarrow> system \<Rightarrow> string \<Rightarrow> bool" where
  "advance w w' jid =
     (phase w jid < phase w' jid
      \<or> (phase w jid = phase w' jid
          \<and> (phase w jid = 2 \<longrightarrow>
                conversion_jobs (st w') jid = None
                \<or> conversion_jobs (st w') jid = conversion_jobs (st w) jid)))"

section \<open>Sample inputs\<close>

text \<open>Concrete jobs, states and conversion routines on which the theorems are instantiated.\<close>

definition ex_job :: ConversionJob where
  "ex_job =
     \<lparr>job_id = ''j1'', original_filename = ''notes.txt'',
      converted_filename = ''notes_0000abcd.pdf'', from_format = ''txt'', to_format = ''pdf'',
      status = PENDING, file_size = 10, converted_file_size = None, conversion_time = None,
      created_at = 0, completed_at = None, error_message = None, download_url = None,
      file_path = Some ''/tmp/conversions/j1_notes.txt'',
      converted_file_path = Some ''/tmp/conversions/notes_0000abcd.pdf''\<rparr>"

definition ex_state :: state where
  "ex_state =
     \<lparr>conversion_jobs = [''j1'' \<mapsto> ex_job],
      disk = [''/tmp/conversions/j1_notes.txt'' \<mapsto> File 10]\<rparr>"

definition failing_converter :: converter where
  "failing_converter c inp outp fs = (Raises (Exception ''boom''), fs)"

definition writing_converter :: "nat \<Rightarrow> converter" where
  "writing_converter n c inp outp fs =
     (Returns True, case outp of None \<Rightarrow> fs | Some p \<Rightarrow> fs(p \<mapsto> File n))"

definition ex_env :: submit_env where
  "ex_env = \<lparr>job_uuid = 7, name_uuid = 2, now = 0, io = Saved\<rparr>"

definition ex_upload :: UploadFile where
  "ex_upload = \<lparr>filename = ''notes.txt'', content_length = 10\<rparr>"

definition ex_id :: string where
  "ex_id = ''00000000-0000-0000-0000-000000000007''"

definition ex_pending :: ConversionJob where
  "ex_pending =
     \<lparr>job_id = ex_id, original_filename = ''notes.txt'',
      converted_filename = ''notes_00000000.pdf'', from_format = ''txt'', to_format = ''pdf'',
      status = PENDING, file_size = 10, converted_file_size = None, conversion_time = None,
      created_at = 0, completed_at = None, error_message = None, download_url = None,
      file_path = Some ''/tmp/conversions/00000000-0000-0000-0000-000000000007_notes.txt'',
      converted_file_path = Some ''/tmp/conversions/notes_00000000.pdf''\<rparr>"

definition ex_submit :: "(HTTPException + ConversionResponse) \<times> ConversionJob list \<times> state" where
  "ex_submit =
     handle_conversion ex_env ex_upload [] TXT_TO_PDF ''txt'' ''pdf'' (st (initial Map.empty))"

definition ex_submitted :: system where
  "ex_submitted =
     (initial Map.empty)
       \<lparr>st := snd (snd ex_submit),
        queued := queued (initial Map.empty) @ fst (snd ex_submit),
        issued := issued (initial Map.empty) \<union> job_id ` set (fst (snd ex_submit))\<rparr>"

definition ex_started :: system where
  "ex_started =
     ex_submitted
       \<lparr>st := snd (process_begin ex_pending (st ex_submitted)),
        queued := remove1 ex_pending (queued ex_submitted),
        running := running ex_submitted @ [(fst (process_begin ex_pending (st ex_submitted)), 0)]\<rparr>"

definition ex_finished :: system where
  "ex_finished =
     ex_started
       \<lparr>st := snd (snd (process_finish 0 1 2 (Returns True) (ex_pending\<lparr>status := PROCESSING\<rparr>)
                 ((st ex_started)\<lparr>disk := (disk (st ex_started))
                    (''/tmp/conversions/notes_00000000.pdf'' \<mapsto> File 2048)\<rparr>))),
        running := remove1 (ex_pending\<lparr>status := PROCESSING\<rparr>, 0) (running ex_started)\<rparr>"

definition ex_cleaned :: system where
  "ex_cleaned = ex_started\<lparr>st := snd (cleanup_conversion_files ex_id (st ex_started))\<rparr>"

definition ex_resumed :: system where
  "ex_resumed =
     ex_cleaned
       \<lparr>st := snd (snd (process_finish 0 1 2 (Returns True) (ex_pending\<lparr>status := PROCESSING\<rparr>)
                 ((st ex_cleaned)\<lparr>disk := (disk (st ex_cleaned))
                    (''/tmp/conversions/notes_00000000.pdf'' \<mapsto> File 2048)\<rparr>))),
        running := remove1 (ex_pending\<lparr>status := PROCESSING\<rparr>, 0) (running ex_cleaned)\<rparr>"

definition ex_exe_upload :: UploadFile where
  "ex_exe_upload = \<lparr>filename = ''image.exe'', content_length = 10\<rparr>"

definition ex_big_upload :: UploadFile where
  "ex_big_upload = \<lparr>filename = ''report.docx'', content_length = 62914560\<rparr>"

definition ex_png_upload :: UploadFile where
  "ex_png_upload = \<lparr>filename = ''photo.PNG'', content_length = 10\<rparr>"

definition ex_done :: ConversionJob where
  "ex_done =
     ex_pending\<lparr>status := COMPLETED, converted_file_size := Some 2048,
                  conversion_time := Some 1, download_url := Some (''/api/download/'' @ ex_id),
                  completed_at := Some 2\<rparr>"

definition ex_lost :: state where
  "ex_lost = \<lparr>conversion_jobs = [ex_id \<mapsto> ex_done], disk = Map.empty\<rparr>"

text \<open>
  A task that is cancelled while it is suspended at its routine: \<^verbatim>\<open>asyncio.CancelledError\<close>
  is raised at the \<^verbatim>\<open>await\<close>. It derives from \<^verbatim>\<open>BaseException\<close>, not from \<^verbatim>\<open>Exception\<close>, and
  its \<^verbatim>\<open>str\<close> is empty.
\<close>

definition cancelled_converter :: converter where
  "cancelled_converter c inp outp fs = (Raises (BaseException []), fs)"

definition ex_cancelled :: system where
  "ex_cancelled =
     ex_started
       \<lparr>st := snd (snd (process_finish 0 1 2 (Raises (BaseException []))
                 (ex_pending\<lparr>status := PROCESSING\<rparr>)
                 ((st ex_started)\<lparr>disk := disk (st ex_started)\<rparr>))),
        running := remove1 (ex_pending\<lparr>status := PROCESSING\<rparr>, 0) (running ex_started)\<rparr>"

text \<open>
  \<^verbatim>\<open>word_to_pdf\<close> (lines 58-83), and \<^verbatim>\<open>excel_to_pdf\<close> (lines 215-243) off Windows, in a run
  where LibreOffice exits with code 0 and has written no PDF, and nothing is at the path
  where it would have written one: \<^verbatim>\<open>generated_pdf.exists()\<close> is false, nothing is renamed,
  and the routine returns \<^verbatim>\<open>os.path.exists(output_path)\<close>. With a path that is \<^verbatim>\<open>None\<close> the
  routine catches the TypeError and returns false, as the other three routines do when
  their library raises.
\<close>

definition idle_libreoffice :: converter where
  "idle_libreoffice c inp outp fs =
     (if c = word_to_pdf \<or> c = excel_to_pdf
      then (case (inp, outp) of
              (Some i, Some p) \<Rightarrow> (Returns (os_path_exists fs p), fs)
            | _ \<Rightarrow> (Returns False, fs))
      else (Returns False, fs))"

text \<open>
  An empty upload named \<^verbatim>\<open>a_00000000.pdf\<close>, followed by the upload of a Word document whose
  name is the first job's id followed by \<^verbatim>\<open>_a.docx\<close> and whose random file-name part is
  \<^verbatim>\<open>00000000\<close>: the output path of the second job is the scratch file of the first.
\<close>

definition ex_blank_env :: submit_env where
  "ex_blank_env = \<lparr>job_uuid = 10, name_uuid = 3, now = 0, io = Saved\<rparr>"

definition ex_blank_upload :: UploadFile where
  "ex_blank_upload = \<lparr>filename = ''a_00000000.pdf'', content_length = 0\<rparr>"

definition ex_blank_id :: string where
  "ex_blank_id = ''00000000-0000-0000-0000-00000000000a''"

definition ex_blank_pending :: ConversionJob where
  "ex_blank_pending =
     \<lparr>job_id = ex_blank_id, original_filename = ''a_00000000.pdf'',
      converted_filename = ''a_00000000_00000000.docx'', from_format = ''pdf'',
      to_format = ''word'',
      status = PENDING, file_size = 0, converted_file_size = None, conversion_time = None,
      created_at = 0, completed_at = None, error_message = None, download_url = None,
      file_path = Some ''/tmp/conversions/00000000-0000-0000-0000-00000000000a_a_00000000.pdf'',
      converted_file_path = Some ''/tmp/conversions/a_00000000_00000000.docx''\<rparr>"

definition ex_blank_submit :: "(HTTPException + ConversionResponse) \<times> ConversionJob list \<times> state" where
  "ex_blank_submit =
     handle_conversion ex_blank_env ex_blank_upload [] PDF_TO_WORD ''pdf'' ''word''
       (st (initial Map.empty))"

definition ex_blank_submitted :: system where
  "ex_blank_submitted =
     (initial Map.empty)
       \<lparr>st := snd (snd ex_blank_submit),
        queued := queued (initial Map.empty) @ fst (snd ex_blank_submit),
        issued := issued (initial Map.empty) \<union> job_id ` set (fst (snd ex_blank_submit))\<rparr>"

definition ex_docx_env :: submit_env where
  "ex_docx_env = \<lparr>job_uuid = 11, name_uuid = 2, now = 0, io = Saved\<rparr>"

definition ex_docx_upload :: UploadFile where
  "ex_docx_upload =
     \<lparr>filename = ''00000000-0000-0000-0000-00000000000a_a.docx'', content_length = 10\<rparr>"

definition ex_docx_id :: string where
  "ex_docx_id = ''00000000-0000-0000-0000-00000000000b''"

definition ex_docx_pending :: ConversionJob where
  "ex_docx_pending =
     \<lparr>job_id = ex_docx_id,
      original_filename = ''00000000-0000-0000-0000-00000000000a_a.docx'',
      converted_filename = ''00000000-0000-0000-0000-00000000000a_a_00000000.pdf'',
      from_format = ''word'', to_format = ''pdf'',
      status = PENDING, file_size = 10, converted_file_size = None, conversion_time = None,
      created_at = 0, completed_at = None, error_message = None, download_url = None,
      file_path = Some (''/tmp/conversions/00000000-0000-0000-0000-00000000000b''
                          @ ''_00000000-0000-0000-0000-00000000000a_a.docx''),
      converted_file_path =
        Some ''/tmp/conversions/00000000-0000-0000-0000-00000000000a_a_00000000.pdf''\<rparr>"

definition ex_docx_submit :: "(HTTPException + ConversionResponse) \<times> ConversionJob list \<times> state" where
  "ex_docx_submit =
     handle_conversion ex_docx_env ex_docx_upload [] WORD_TO_PDF ''word'' ''pdf''
       (st ex_blank_submitted)"

definition ex_docx_submitted :: system where
  "ex_docx_submitted =
     ex_blank_submitted
       \<lparr>st := snd (snd ex_docx_submit),
        queued := queued ex_blank_submitted @ fst (snd ex_docx_submit),
        issued := issued ex_blank_submitted \<union> job_id ` set (fst (snd ex_docx_submit))\<rparr>"

definition ex_docx_started :: system where
  "ex_docx_started =
     ex_docx_submitted
       \<lparr>st := snd (process_begin ex_docx_pending (st ex_docx_submitted)),
        queued := remove1 ex_docx_pending (queued ex_docx_submitted),
        running := running ex_docx_submitted
                     @ [(fst (process_begin ex_docx_pending (st ex_docx_submitted)), 0)]\<rparr>"

definition ex_docx_finished :: system where
  "ex_docx_finished =
     ex_docx_started
       \<lparr>st := snd (snd (process_finish 0 1 2
                 (fst (invoke_converter idle_libreoffice (ex_docx_pending\<lparr>status := PROCESSING\<rparr>)
                         (disk (st ex_docx_started))))
                 (ex_docx_pending\<lparr>status := PROCESSING\<rparr>)
                 ((st ex_docx_started)\<lparr>disk :=
                    snd (invoke_converter idle_libreoffice (ex_docx_pending\<lparr>status := PROCESSING\<rparr>)
                           (disk (st ex_docx_started)))\<rparr>))),
        running := remove1 (ex_docx_pending\<lparr>status := PROCESSING\<rparr>, 0) (running ex_docx_started)\<rparr>"

text \<open>
  After the job \<open>ex_id\<close> is COMPLETED, a second upload of \<^verbatim>\<open>notes.txt\<close> draws a file-name
  UUID with the same first eight characters, so both jobs have the same output path; the
  second job is then cleaned up.
\<close>

definition ex_twin_env :: submit_env where
  "ex_twin_env = \<lparr>job_uuid = 8, name_uuid = 5, now = 3, io = Saved\<rparr>"

definition ex_twin_id :: string where
  "ex_twin_id = ''00000000-0000-0000-0000-000000000008''"

definition ex_twin_pending :: ConversionJob where
  "ex_twin_pending =
     \<lparr>job_id = ex_twin_id, original_filename = ''notes.txt'',
      converted_filename = ''notes_00000000.pdf'', from_format = ''txt'', to_format = ''pdf'',
      status = PENDING, file_size = 10, converted_file_size = None, conversion_time = None,
      created_at = 3, completed_at = None, error_message = None, download_url = None,
      file_path = Some ''/tmp/conversions/00000000-0000-0000-0000-000000000008_notes.txt'',
      converted_file_path = Some ''/tmp/conversions/notes_00000000.pdf''\<rparr>"

definition ex_twin_submit :: "(HTTPException + ConversionResponse) \<times> ConversionJob list \<times> state" where
  "ex_twin_submit =
     handle_conversion ex_twin_env ex_upload [] TXT_TO_PDF ''txt'' ''pdf'' (st ex_finished)"

definition ex_twin_submitted :: system where
  "ex_twin_submitted =
     ex_finished
       \<lparr>st := snd (snd ex_twin_submit),
        queued := queued ex_finished @ fst (snd ex_twin_submit),
        issued := issued ex_finished \<union> job_id ` set (fst (snd ex_twin_submit))\<rparr>"

definition ex_twin_cleaned :: system where
  "ex_twin_cleaned =
     ex_twin_submitted\<lparr>st := snd (cleanup_conversion_files ex_twin_id (st ex_twin_submitted))\<rparr>"
section \<open>Paths and identifiers: lemmas\<close>

lemma split_on_nonempty: "split_on c s \<noteq> []"
  by (induction s) (auto split: list.splits)

lemma split_on_no_sep: "c \<notin> set a \<Longrightarrow> split_on c a = [a]"
  by (induction a) auto

lemma split_on_append_sep: "split_on c (a @ c # b) = split_on c a @ split_on c b"
  by (induction a) (auto split: list.splits simp: split_on_nonempty)

lemma split_on_prefix:
  "c \<notin> set a \<Longrightarrow> split_on c (a @ b) = (a @ hd (split_on c b)) # tl (split_on c b)"
  by (induction a) (auto split: list.splits simp: split_on_nonempty)

lemma rfind_append:
  "c \<in> set b \<Longrightarrow> rfind c (a @ b) = int (length a) + rfind c b"
  by (simp add: rfind_def takeWhile_append1)

lemma hex_digit_not_slash: "hex_digit d \<noteq> CHR ''/''"
proof -
  have "hex_digit d \<in> set ''0123456789abcdef''"
    unfolding hex_digit_def by (rule nth_mem) simp
  then show ?thesis by auto
qed

lemma length_hex_digits: "length (hex_digits k n) = k"
  by (induction k arbitrary: n) auto

lemma hex_digits_no_slash: "CHR ''/'' \<notin> set (hex_digits k n)"
  by (induction k arbitrary: n) (simp_all add: hex_digit_not_slash [symmetric])

lemma grouping_no_slash:
  "CHR ''/'' \<notin> set h \<Longrightarrow>
   CHR ''/'' \<notin> set (take 8 h @ ''-'' @ take 4 (drop 8 h) @ ''-'' @ take 4 (drop 12 h) @ ''-''
           @ take 4 (drop 16 h) @ ''-'' @ drop 20 h)"
  by (auto dest: in_set_takeD in_set_dropD)

lemma slash_notin_uuid_str: "CHR ''/'' \<notin> set (uuid_str u)"
  unfolding uuid_str_def Let_def by (rule grouping_no_slash) (rule hex_digits_no_slash)

lemma length_uuid_str: "length (uuid_str u) = 36"
  by (simp add: uuid_str_def Let_def length_hex_digits)


lemma split_on_parts_no_sep: "x \<in> set (split_on c s) \<Longrightarrow> c \<notin> set x"
  by (induction s arbitrary: x) (auto split: if_splits list.splits)

lemma posix_parts_clean:
  "x \<in> set (posix_parts p) \<Longrightarrow> x \<noteq> [] \<and> x \<noteq> ''.'' \<and> CHR ''/'' \<notin> set x"
  by (auto simp: posix_parts_def dest: split_on_parts_no_sep)

lemma split_on_joined:
  "\<forall>x \<in> set ps. c \<notin> set x \<Longrightarrow>
   split_on c (d @ concat (map (\<lambda>x. c # x) ps)) = split_on c d @ ps"
proof (induction ps rule: rev_induct)
  case Nil
  show ?case by simp
next
  case (snoc p ps)
  have "split_on c (d @ concat (map (\<lambda>x. c # x) (ps @ [p])))
      = split_on c ((d @ concat (map (\<lambda>x. c # x) ps)) @ c # p)" by simp
  also have "\<dots> = split_on c (d @ concat (map (\<lambda>x. c # x) ps)) @ split_on c p"
    by (rule split_on_append_sep)
  also have "\<dots> = (split_on c d @ ps) @ [p]"
    using snoc by (simp add: split_on_no_sep)
  finally show ?case by simp
qed

lemma slash_cons: "(@) ''/'' = (#) CHR ''/''"
  by (rule ext) simp

lemma posix_parts_joined:
  "posix_parts (d @ concat (map (\<lambda>x. CHR ''/'' # x) (posix_parts rel)))
     = posix_parts d @ posix_parts rel"
proof -
  have c: "\<forall>x \<in> set (posix_parts rel). CHR ''/'' \<notin> set x"
    using posix_parts_clean by blast
  have "filter (\<lambda>x. x \<noteq> [] \<and> x \<noteq> ''.'') (posix_parts rel) = posix_parts rel"
    using posix_parts_clean by (intro filter_True) blast
  then show ?thesis
    using split_on_joined [OF c, of d] by (simp add: posix_parts_def)
qed

lemma path_name_last:
  "path_name p = (if posix_parts p = [] then [] else last (posix_parts p))"
  by (simp add: path_name_def split: list.splits)

lemma path_name_join:
  assumes "take 1 rel \<noteq> ''/''" and "posix_parts rel \<noteq> []"
  shows "path_name (path_join d rel) = path_name rel"
proof -
  have "path_join d rel = d @ concat (map (\<lambda>x. CHR ''/'' # x) (posix_parts rel))"
    using assms(1) by (simp add: path_join_def slash_cons)
  then have "posix_parts (path_join d rel) = posix_parts d @ posix_parts rel"
    by (simp add: posix_parts_joined)
  with assms(2) show ?thesis
    by (simp add: path_name_last)
qed

lemma path_suffix_cong: "path_name p = path_name q \<Longrightarrow> path_suffix p = path_suffix q"
  by (simp add: path_suffix_def)

lemma path_suffix_nonempty_name:
  assumes "path_suffix p \<noteq> []"
  shows "CHR ''.'' \<in> set (path_name p) \<and> 0 < rfind CHR ''.'' (path_name p)
         \<and> rfind CHR ''.'' (path_name p) < int (length (path_name p)) - 1"
proof -
  from assms have c: "0 < rfind CHR ''.'' (path_name p)
      \<and> rfind CHR ''.'' (path_name p) < int (length (path_name p)) - 1"
    by (simp add: path_suffix_def Let_def split: if_splits)
  then have "CHR ''.'' \<in> set (path_name p)"
    by (auto simp: rfind_def split: if_splits)
  with c show ?thesis by simp
qed

lemma suffix_of_prefixed_name:
  assumes "CHR ''.'' \<in> set h" and "0 < rfind CHR ''.'' h"
    and "rfind CHR ''.'' h < int (length h) - 1"
  shows "(let name = pre @ h; i = rfind CHR ''.'' name
          in if 0 < i \<and> i < int (length name) - 1 then drop (nat i) name else [])
       = drop (nat (rfind CHR ''.'' h)) h"
proof -
  have r: "rfind CHR ''.'' (pre @ h) = int (length pre) + rfind CHR ''.'' h"
    using assms(1) by (rule rfind_append)
  have "nat (int (length pre) + rfind CHR ''.'' h) = length pre + nat (rfind CHR ''.'' h)"
    using assms(2) by simp
  then show ?thesis
    using assms r by (simp add: Let_def)
qed

lemma path_suffix_prefixed:
  assumes ne: "path_suffix fname \<noteq> []" and pre: "CHR ''/'' \<notin> set pre"
  shows "path_suffix (pre @ fname) = path_suffix fname"
proof -
  let ?clean = "\<lambda>x. x \<noteq> [] \<and> x \<noteq> ''.''"
  obtain h t where ht: "split_on CHR ''/'' fname = h # t"
    using split_on_nonempty [of "CHR ''/''" fname] by (cases "split_on CHR ''/'' fname") auto
  have sp: "split_on CHR ''/'' (pre @ fname) = (pre @ h) # t"
    using split_on_prefix [OF pre, of fname] ht by simp
  note nm = path_suffix_nonempty_name [OF ne]
  show ?thesis
  proof (cases "filter ?clean t = []")
    case False
    then have "path_name (pre @ fname) = path_name fname"
      using ht sp by (auto simp: path_name_def posix_parts_def split: list.splits)
    then show ?thesis by (rule path_suffix_cong)
  next
    case True
    have pn: "path_name fname = (if ?clean h then h else [])"
      using ht True by (simp add: path_name_def posix_parts_def)
    from nm have "path_name fname \<noteq> []" by auto
    with pn have ch: "?clean h" and pnh: "path_name fname = h" by (auto split: if_splits)
    from nm pnh have dot: "CHR ''.'' \<in> set h" and lo: "0 < rfind CHR ''.'' h"
      and hi: "rfind CHR ''.'' h < int (length h) - 1" by simp_all
    from hi lo have "2 \<le> length h" by simp
    then have "pre @ h \<noteq> [] \<and> pre @ h \<noteq> ''.''"
      by (cases h) (auto simp: append_eq_Cons_conv)
    then have pn': "path_name (pre @ fname) = pre @ h"
      using sp True by (simp add: path_name_def posix_parts_def)
    have "path_suffix (pre @ fname) = drop (nat (rfind CHR ''.'' h)) h"
      unfolding path_suffix_def pn' by (rule suffix_of_prefixed_name [OF dot lo hi])
    also have "\<dots> = path_suffix fname"
      using lo hi by (simp add: path_suffix_def pnh)
    finally show ?thesis .
  qed
qed

lemma path_suffix_scratch:
  assumes ne: "path_suffix fname \<noteq> []"
  shows "path_suffix (path_join d (uuid_str u @ ''_'' @ fname)) = path_suffix fname"
proof -
  let ?rel = "uuid_str u @ ''_'' @ fname"
  have pre: "CHR ''/'' \<notin> set (uuid_str u @ ''_'')"
    using slash_notin_uuid_str [of u] by simp
  have eq: "path_suffix ?rel = path_suffix fname"
    using path_suffix_prefixed [OF ne pre] by simp
  obtain c cs where u: "uuid_str u = c # cs"
    using length_uuid_str [of u] by (cases "uuid_str u") auto
  with slash_notin_uuid_str [of u] have rel: "take 1 ?rel \<noteq> ''/''" by auto
  from eq ne have "path_name ?rel \<noteq> []"
    using path_suffix_nonempty_name [of ?rel] by auto
  then have "posix_parts ?rel \<noteq> []" by (auto simp: path_name_def)
  with rel have "path_name (path_join d ?rel) = path_name ?rel" by (rule path_name_join)
  then have "path_suffix (path_join d ?rel) = path_suffix ?rel" by (rule path_suffix_cong)
  with eq show ?thesis by simp
qed

section \<open>The background task: lemmas\<close>

lemma process_begin_eq:
  "process_begin job s =
     (job\<lparr>status := PROCESSING\<rparr>,
      s\<lparr>conversion_jobs := (conversion_jobs s)(job_id job \<mapsto> job\<lparr>status := PROCESSING\<rparr>)\<rparr>)"
  by (simp add: process_begin_def Let_def)

lemma process_finish_success:
  assumes "converted_file_path job = Some p" and "disk s p = Some n"
  shows "process_finish t0 t1 t2 (Returns True) job s =
     (let job' = job\<lparr>status := COMPLETED, converted_file_size := Some (st_size n),
                      conversion_time := Some (round_2dp (t1 - t0)),
                      download_url := Some (''/api/download/'' @ job_id job),
                      completed_at := Some t2\<rparr>
      in (None, job', s\<lparr>conversion_jobs := (conversion_jobs s)(job_id job \<mapsto> job')\<rparr>))"
  using assms
  by (simp add: process_finish_def try_body_def update_job_status_def except_Exception_def
      os_path_exists_def os_path_getsize_def Let_def)

lemma process_finish_failure:
  assumes "\<not> (out = Returns True \<and> (\<exists>p. converted_file_path job = Some p \<and> disk s p \<noteq> None))"
    and "\<forall>m. out \<noteq> Raises (BaseException m)"
  shows "\<exists>msg. process_finish t0 t1 t2 out job s =
     (let job' = job\<lparr>status := FAILED, error_message := Some msg, completed_at := Some t2\<rparr>
      in (None, job', s\<lparr>conversion_jobs := (conversion_jobs s)(job_id job \<mapsto> job')\<rparr>))"
proof (cases out)
  case (Raises x)
  with assms(2) obtain e where "x = Exception e" by (cases x) auto
  with Raises show ?thesis
    by (intro exI [of _ "''Conversion error: '' @ e"])
       (simp add: process_finish_def try_body_def except_Exception_def Let_def)
next
  case (Returns b)
  show ?thesis
  proof (cases b)
    case False
    with Returns show ?thesis
      by (intro exI [of _ "''Conversion failed''"])
         (simp add: process_finish_def try_body_def update_job_status_def except_Exception_def
          Let_def)
  next
    case True
    show ?thesis
    proof (cases "converted_file_path job")
      case None
      with Returns True show ?thesis
        by (intro exI [of _ "''Conversion error: '' @
              ''stat: path should be string, bytes, os.PathLike or integer, not NoneType''"])
           (simp add: process_finish_def try_body_def update_job_status_def except_Exception_def
            Let_def)
    next
      case (Some p)
      with assms Returns True have "disk s p = None" by simp
      with Returns True Some show ?thesis
        by (intro exI [of _ "''Conversion failed''"])
           (simp add: process_finish_def try_body_def update_job_status_def except_Exception_def
            os_path_exists_def Let_def)
    qed
  qed
qed

lemma process_finish_raises:
  "process_finish t0 t1 t2 (Raises (Exception e)) job s =
     (let job' = job\<lparr>status := FAILED, error_message := Some (''Conversion error: '' @ e),
                      completed_at := Some t2\<rparr>
      in (None, job', s\<lparr>conversion_jobs := (conversion_jobs s)(job_id job \<mapsto> job')\<rparr>))"
  by (simp add: process_finish_def try_body_def except_Exception_def Let_def)

text \<open>An exception that the handler does not catch: only \<^verbatim>\<open>finally\<close> runs.\<close>

lemma process_finish_uncaught:
  "process_finish t0 t1 t2 (Raises (BaseException m)) job s =
     (let job' = job\<lparr>completed_at := Some t2\<rparr>
      in (Some (BaseException m), job',
          s\<lparr>conversion_jobs := (conversion_jobs s)(job_id job \<mapsto> job')\<rparr>))"
  by (simp add: process_finish_def try_body_def except_Exception_def Let_def)

text \<open>What \<^verbatim>\<open>process_finish\<close> guarantees in every case.\<close>

lemma process_finish_summary:
  assumes "process_finish t0 t1 t2 out job s = (pending, job', s')"
  shows "pending = (case out of Raises (BaseException m) \<Rightarrow> Some (BaseException m) | _ \<Rightarrow> None)"
    and "job_id job' = job_id job"
    and "conversion_jobs s' = (conversion_jobs s)(job_id job \<mapsto> job')"
    and "disk s' = disk s"
    and "pending = None \<longrightarrow> status job' = COMPLETED \<or> status job' = FAILED"
    and "pending = None \<longrightarrow> status job' = FAILED \<longrightarrow>
           error_message job' \<noteq> None \<and> download_url job' = download_url job"
    and "pending = None \<longrightarrow> status job' = COMPLETED \<longrightarrow>
           download_url job' \<noteq> None \<and> converted_file_path job' \<noteq> None
           \<and> converted_file_size job' \<noteq> None"
    and "completed_at job' = Some t2"
    and "pending \<noteq> None \<longrightarrow> job' = job\<lparr>completed_at := Some t2\<rparr>"
    and "from_format job' = from_format job \<and> to_format job' = to_format job"
proof -
  consider p n where "out = Returns True" "converted_file_path job = Some p" "disk s p = Some n"
    | m where "out = Raises (BaseException m)"
    | "\<not> (out = Returns True \<and> (\<exists>p. converted_file_path job = Some p \<and> disk s p \<noteq> None))"
      "\<forall>m. out \<noteq> Raises (BaseException m)"
    by (cases "out = Returns True \<and> (\<exists>p. converted_file_path job = Some p \<and> disk s p \<noteq> None)")
       auto
  then have "pending = (case out of Raises (BaseException m) \<Rightarrow> Some (BaseException m) | _ \<Rightarrow> None)
      \<and> job_id job' = job_id job
      \<and> conversion_jobs s' = (conversion_jobs s)(job_id job \<mapsto> job') \<and> disk s' = disk s
      \<and> (pending = None \<longrightarrow> status job' = COMPLETED \<or> status job' = FAILED)
      \<and> (pending = None \<longrightarrow> status job' = FAILED \<longrightarrow>
            error_message job' \<noteq> None \<and> download_url job' = download_url job)
      \<and> (pending = None \<longrightarrow> status job' = COMPLETED \<longrightarrow>
            download_url job' \<noteq> None \<and> converted_file_path job' \<noteq> None
            \<and> converted_file_size job' \<noteq> None)
      \<and> completed_at job' = Some t2
      \<and> (pending \<noteq> None \<longrightarrow> job' = job\<lparr>completed_at := Some t2\<rparr>)
      \<and> from_format job' = from_format job \<and> to_format job' = to_format job"
  proof cases
    case 1
    from process_finish_success [OF 1(2,3), of t0 t1 t2] assms 1(1,2)
    show ?thesis by (auto simp: Let_def)
  next
    case 2
    from process_finish_uncaught [of t0 t1 t2 m job s] assms 2
    show ?thesis by (auto simp: Let_def)
  next
    case 3
    from process_finish_failure [OF 3, of t0 t1 t2] assms 3(2)
    show ?thesis by (cases out; auto simp: Let_def split: py_exception.splits)
  qed
  then show "pending = (case out of Raises (BaseException m) \<Rightarrow> Some (BaseException m) | _ \<Rightarrow> None)"
    and "job_id job' = job_id job"
    and "conversion_jobs s' = (conversion_jobs s)(job_id job \<mapsto> job')"
    and "disk s' = disk s"
    and "pending = None \<longrightarrow> status job' = COMPLETED \<or> status job' = FAILED"
    and "pending = None \<longrightarrow> status job' = FAILED \<longrightarrow>
           error_message job' \<noteq> None \<and> download_url job' = download_url job"
    and "pending = None \<longrightarrow> status job' = COMPLETED \<longrightarrow>
           download_url job' \<noteq> None \<and> converted_file_path job' \<noteq> None
           \<and> converted_file_size job' \<noteq> None"
    and "completed_at job' = Some t2"
    and "pending \<noteq> None \<longrightarrow> job' = job\<lparr>completed_at := Some t2\<rparr>"
    and "from_format job' = from_format job \<and> to_format job' = to_format job"
    by simp_all
qed

text \<open>
  The job that \<^verbatim>\<open>process_finish\<close> stores for a task that was suspended with the job
  PROCESSING and no download URL.
\<close>

lemma process_finish_stored:
  assumes p: "process_finish t0 t1 t2 out job s = (pending, job', s')"
    and j: "status job = PROCESSING" "download_url job = None"
  shows "status job' \<noteq> PENDING" and "job_ok job'"
proof -
  note s = process_finish_summary [OF p]
  show "status job' \<noteq> PENDING"
  proof (cases "pending = None")
    case True
    with s(5) show ?thesis by auto
  next
    case False
    with s(9) have "job' = job\<lparr>completed_at := Some t2\<rparr>" by simp
    with j show ?thesis by simp
  qed
  show "job_ok job'"
  proof (cases "pending = None")
    case True
    with s(5,6,7) j(2) show ?thesis by (auto simp: job_ok_def)
  next
    case False
    with s(9) have "job' = job\<lparr>completed_at := Some t2\<rparr>" by simp
    with j show ?thesis by (simp add: job_ok_def)
  qed
qed

text \<open>\<^verbatim>\<open>process_conversion\<close> is \<open>process_finish\<close> after the routine after \<open>process_begin\<close>.\<close>

lemma select_converter_status [simp]: "select_converter (job\<lparr>status := x\<rparr>) = select_converter job"
  by (simp add: select_converter_def)

lemma process_conversion_eq:
  "process_conversion conv t0 t1 t2 job s =
     process_finish t0 t1 t2 (fst (invoke_converter conv (job\<lparr>status := PROCESSING\<rparr>) (disk s))) (job\<lparr>status := PROCESSING\<rparr>)
       (s\<lparr>conversion_jobs := (conversion_jobs s)(job_id job \<mapsto> job\<lparr>status := PROCESSING\<rparr>),
          disk := snd (invoke_converter conv (job\<lparr>status := PROCESSING\<rparr>) (disk s))\<rparr>)"
  by (auto simp: process_conversion_def process_begin_eq invoke_converter_def
      process_finish_def split: option.splits prod.splits)

section \<open>Submission: lemmas\<close>

lemma ALLOWED_FORMATS_nonempty_ext: "[] \<notin> set (ALLOWED_FORMATS t)"
  by (cases t) (simp_all add: ALLOWED_FORMATS_def)

lemma allowed_ext_suffix_nonempty:
  "lstrip_dot (str_lower (path_suffix f)) \<in> set (ALLOWED_FORMATS t) \<Longrightarrow> path_suffix f \<noteq> []"
  using ALLOWED_FORMATS_nonempty_ext [of t] by (auto simp: lstrip_dot_def str_lower_def)

lemma handle_conversion_invalid_format:
  "lstrip_dot (str_lower (path_suffix (filename file))) \<notin> set (ALLOWED_FORMATS t) \<Longrightarrow>
   handle_conversion env file bt t ff tf s =
     (Inl (HTTPException 400
        (''Invalid file type. Supported formats: '' @ join '', '' (ALLOWED_FORMATS t))), bt, s)"
  by (simp add: handle_conversion_def Let_def)

lemma handle_conversion_cases:
  assumes "handle_conversion env file bt t ff tf s = (res, tasks, s')"
  shows "(\<exists>e. res = Inl e \<and> tasks = bt \<and> conversion_jobs s' = conversion_jobs s)
       \<or> (\<exists>job r. res = Inr r \<and> r_job_id r = job_id job \<and> tasks = bt @ [job]
            \<and> conversion_jobs s' = (conversion_jobs s)(job_id job \<mapsto> job)
            \<and> job_id job = uuid_str (job_uuid env) \<and> status job = PENDING
            \<and> download_url job = None \<and> from_format job = ff \<and> to_format job = tf)"
  using assms
  by (auto simp: handle_conversion_def Let_def save_uploaded_file_def
      split: if_splits prod.splits sum.splits save_outcome.splits)

section \<open>The invariant is kept by every step\<close>

lemma consistent_initial: "consistent (initial fs)"
  by (simp add: consistent_def initial_def task_ids_def tasks_ok_def)

lemma distinct_map_remove1:
  "distinct (map f xs) \<Longrightarrow> distinct (map f (remove1 x xs))"
  by (induction xs) (auto dest!: set_remove1_subset [THEN subsetD])

lemma image_remove1_distinct:
  "distinct (map f xs) \<Longrightarrow> x \<in> set xs \<Longrightarrow> f ` set (remove1 x xs) = f ` set xs - {f x}"
  by (induction xs) auto

lemma cleanup_registry:
  "cleanup_conversion_files jid s = (res, s') \<Longrightarrow>
   conversion_jobs s' = (conversion_jobs s)(jid := None)"
  by (auto simp: cleanup_conversion_files_def Let_def split: option.splits)

text \<open>An entry that is not touched stays in order when the tasks of its id stay as they are.\<close>

lemma entry_ok_kept:
  assumes "entry_ok w jid j" and "issued w \<subseteq> issued w'"
    and "jid \<in> job_id ` set (queued w') \<longleftrightarrow> jid \<in> job_id ` set (queued w)"
    and "jid \<in> (job_id \<circ> fst) ` set (running w') \<longleftrightarrow> jid \<in> (job_id \<circ> fst) ` set (running w)"
  shows "entry_ok w' jid j"
  using assms unfolding entry_ok_def in_flight_def by blast

lemma consistent_cleanup:
  assumes w: "consistent w" and c: "cleanup_conversion_files jid (st w) = (res, s')"
  shows "consistent (w\<lparr>st := s'\<rparr>)"
proof -
  let ?w' = "w\<lparr>st := s'\<rparr>"
  have reg: "conversion_jobs (st ?w') = (conversion_jobs (st w))(jid := None)"
    using cleanup_registry [OF c] by simp
  have "entry_ok ?w' i j" if "conversion_jobs (st ?w') i = Some j" for i j
  proof -
    from that reg have "conversion_jobs (st w) i = Some j" by (simp split: if_splits)
    with w have "entry_ok w i j" by (simp add: consistent_def)
    then show ?thesis by (rule entry_ok_kept) simp_all
  qed
  moreover have "tasks_ok ?w'" using w by (simp add: consistent_def tasks_ok_def)
  moreover have "distinct (task_ids ?w')" using w by (simp add: consistent_def task_ids_def)
  ultimately show ?thesis by (simp add: consistent_def)
qed

lemma tasks_in_issued:
  assumes "consistent w"
  shows "job_id ` set (queued w) \<subseteq> issued w" and "(job_id \<circ> fst) ` set (running w) \<subseteq> issued w"
  using assms by (auto simp: consistent_def tasks_ok_def)

lemma consistent_submit:
  assumes w: "consistent w" and fresh: "uuid_str (job_uuid env) \<notin> issued w"
    and h: "handle_conversion env file [] t ff tf (st w) = (res, tasks, s')"
  shows "consistent (w\<lparr>st := s', queued := queued w @ tasks, issued := issued w \<union> job_id ` set tasks\<rparr>)"
proof -
  let ?w' = "w\<lparr>st := s', queued := queued w @ tasks, issued := issued w \<union> job_id ` set tasks\<rparr>"
  from handle_conversion_cases [OF h]
  consider "tasks = []" "conversion_jobs s' = conversion_jobs (st w)"
    | job where "tasks = [job]" "conversion_jobs s' = (conversion_jobs (st w))(job_id job \<mapsto> job)"
        "job_id job = uuid_str (job_uuid env)" "status job = PENDING" "download_url job = None"
    by auto
  then show ?thesis
  proof cases
    case 1
    have "entry_ok ?w' i j" if "conversion_jobs (st ?w') i = Some j" for i j
    proof -
      from that 1 have "entry_ok w i j" using w by (simp add: consistent_def)
      then show ?thesis by (rule entry_ok_kept) (simp_all add: 1)
    qed
    moreover have "tasks_ok ?w'" using w 1 by (simp add: consistent_def tasks_ok_def)
    moreover have "distinct (task_ids ?w')" using w 1 by (simp add: consistent_def task_ids_def)
    ultimately show ?thesis by (simp add: consistent_def)
  next
    case 2
    let ?u = "job_id job"
    from tasks_in_issued [OF w] fresh 2(3)
    have nq: "?u \<notin> job_id ` set (queued w)" and nr: "?u \<notin> (job_id \<circ> fst) ` set (running w)"
      by auto
    have ok: "job_ok job" using 2 by (simp add: job_ok_def)
    have "entry_ok ?w' i j" if e: "conversion_jobs (st ?w') i = Some j" for i j
    proof (cases "i = ?u")
      case True
      with e 2 have "j = job" by simp
      with True ok 2 nr show ?thesis by (simp add: entry_ok_def in_flight_def)
    next
      case False
      with e 2 have "entry_ok w i j" using w by (simp add: consistent_def)
      then show ?thesis by (rule entry_ok_kept) (use False 2 in auto)
    qed
    moreover have "tasks_ok ?w'" using w 2 by (auto simp: consistent_def tasks_ok_def)
    moreover have "distinct (task_ids ?w')"
      using w nq nr 2 by (auto simp: consistent_def task_ids_def)
    ultimately show ?thesis by (simp add: consistent_def)
  qed
qed

lemma process_conversion_summary:
  assumes "process_conversion conv t0 t1 t2 job s = (pending, job', s')"
  shows "pending = (case fst (invoke_converter conv (job\<lparr>status := PROCESSING\<rparr>) (disk s)) of
                      Raises (BaseException m) \<Rightarrow> Some (BaseException m) | _ \<Rightarrow> None)"
    and "job_id job' = job_id job"
    and "conversion_jobs s' = (conversion_jobs s)(job_id job \<mapsto> job')"
    and "pending = None \<longrightarrow> status job' = COMPLETED \<or> status job' = FAILED"
    and "pending = None \<longrightarrow> status job' = FAILED \<longrightarrow>
           error_message job' \<noteq> None \<and> download_url job' = download_url job"
    and "pending = None \<longrightarrow> status job' = COMPLETED \<longrightarrow>
           download_url job' \<noteq> None \<and> converted_file_path job' \<noteq> None
           \<and> converted_file_size job' \<noteq> None"
    and "completed_at job' = Some t2"
    and "pending \<noteq> None \<longrightarrow> job' = job\<lparr>status := PROCESSING, completed_at := Some t2\<rparr>"
    and "from_format job' = from_format job \<and> to_format job' = to_format job"
  using process_finish_summary [OF assms [unfolded process_conversion_eq]]
  by simp_all

lemma process_conversion_stored:
  assumes p: "process_conversion conv t0 t1 t2 job s = (pending, job', s')"
    and j: "download_url job = None"
  shows "status job' \<noteq> PENDING" and "job_ok job'"
  using process_finish_stored [OF p [unfolded process_conversion_eq]] j by simp_all

text \<open>With no routine for the format tags nothing is awaited and nothing can be raised.\<close>

lemma process_conversion_direct:
  assumes "process_conversion conv t0 t1 t2 job s = (pending, job', s')"
    and "select_converter job = None"
  shows "pending = None" and "status job' = FAILED"
  using assms
  by (auto simp: process_conversion_eq invoke_converter_def process_finish_def try_body_def
      update_job_status_def except_Exception_def Let_def)

lemma queued_ids_remove1:
  assumes "distinct (task_ids w)" and "job \<in> set (queued w)"
  shows "job_id ` set (remove1 job (queued w)) = job_id ` set (queued w) - {job_id job}"
    and "job_id job \<notin> (job_id \<circ> fst) ` set (running w)"
    and "distinct (map job_id (remove1 job (queued w)))"
proof -
  from assms(1) have dq: "distinct (map job_id (queued w))"
    and dj: "set (map job_id (queued w)) \<inter> set (map (job_id \<circ> fst) (running w)) = {}"
    by (simp_all add: task_ids_def)
  show "job_id ` set (remove1 job (queued w)) = job_id ` set (queued w) - {job_id job}"
    using dq assms(2) by (rule image_remove1_distinct)
  show "job_id job \<notin> (job_id \<circ> fst) ` set (running w)"
    using dj assms(2) by auto
  show "distinct (map job_id (remove1 job (queued w)))"
    using dq by (rule distinct_map_remove1)
qed

lemma running_ids_remove1:
  assumes "distinct (task_ids w)" and "jt \<in> set (running w)"
  shows "(job_id \<circ> fst) ` set (remove1 jt (running w))
           = (job_id \<circ> fst) ` set (running w) - {job_id (fst jt)}"
    and "job_id (fst jt) \<notin> job_id ` set (queued w)"
    and "distinct (map (job_id \<circ> fst) (remove1 jt (running w)))"
proof -
  from assms(1) have dr: "distinct (map (job_id \<circ> fst) (running w))"
    and dj: "set (map job_id (queued w)) \<inter> set (map (job_id \<circ> fst) (running w)) = {}"
    by (simp_all add: task_ids_def)
  show "(job_id \<circ> fst) ` set (remove1 jt (running w))
           = (job_id \<circ> fst) ` set (running w) - {job_id (fst jt)}"
    using image_remove1_distinct [OF dr assms(2)] by simp
  show "job_id (fst jt) \<notin> job_id ` set (queued w)"
    using dj assms(2) by auto
  show "distinct (map (job_id \<circ> fst) (remove1 jt (running w)))"
    using dr by (rule distinct_map_remove1)
qed

lemma consistent_task_begin:
  assumes w: "consistent w" and q: "job \<in> set (queued w)"
    and b: "process_begin job (st w) = (job1, s1)"
  shows "consistent (w\<lparr>st := s1, queued := remove1 job (queued w),
               running := running w @ [(job1, t0)]\<rparr>)"
proof -
  let ?w' = "w\<lparr>st := s1, queued := remove1 job (queued w), running := running w @ [(job1, t0)]\<rparr>"
  let ?u = "job_id job"
  from b have j1: "job1 = job\<lparr>status := PROCESSING\<rparr>"
    and r1: "conversion_jobs s1 = (conversion_jobs (st w))(?u \<mapsto> job1)"
    by (auto simp: process_begin_eq)
  from w have d: "distinct (task_ids w)" by (simp add: consistent_def)
  note ids = queued_ids_remove1 [OF d q]
  from w q have jq: "status job = PENDING" "download_url job = None" "?u \<in> issued w"
    by (auto simp: consistent_def tasks_ok_def)
  have ok: "job_ok job1" using j1 jq by (simp add: job_ok_def)
  have u1: "job_id job1 = ?u" using j1 by simp
  have "entry_ok ?w' i j" if e: "conversion_jobs (st ?w') i = Some j" for i j
  proof (cases "i = ?u")
    case True
    with e r1 have "j = job1" by simp
    with True ok jq(3) u1 ids(1) j1 show ?thesis
      by (simp add: entry_ok_def in_flight_def)
  next
    case False
    with e r1 have "entry_ok w i j" using w by (simp add: consistent_def)
    then show ?thesis by (rule entry_ok_kept) (use False u1 ids(1) in auto)
  qed
  moreover have "tasks_ok ?w'"
    using w j1 jq set_remove1_subset [of job "queued w"] by (auto simp: consistent_def tasks_ok_def)
  moreover have "distinct (task_ids ?w')"
    using d ids u1 by (auto simp: task_ids_def)
  ultimately show ?thesis by (simp add: consistent_def)
qed

text \<open>The step that ends a task of the job \<open>jid\<close>, whichever list held it.\<close>

lemma consistent_finish:
  assumes w: "consistent w"
    and id': "job_id job' = jid" and iss: "jid \<in> issued w"
    and tm: "status job' \<noteq> PENDING"
    and ok: "job_ok job'"
    and reg: "conversion_jobs s' = (conversion_jobs (st w))(jid \<mapsto> job')"
    and q': "set q' \<subseteq> set (queued w)" "job_id ` set q' = job_id ` set (queued w) - {jid}"
    and r': "set r' \<subseteq> set (running w)"
      "(job_id \<circ> fst) ` set r' = (job_id \<circ> fst) ` set (running w) - {jid}"
    and d': "distinct (map job_id q' @ map (job_id \<circ> fst) r')"
  shows "consistent (w\<lparr>st := s', queued := q', running := r'\<rparr>)"
proof -
  let ?w' = "w\<lparr>st := s', queued := q', running := r'\<rparr>"
  have "entry_ok ?w' i j" if e: "conversion_jobs (st ?w') i = Some j" for i j
  proof (cases "i = jid")
    case True
    with e reg have "j = job'" by simp
    with True id' iss tm ok q'(2) r'(2) show ?thesis
      by (simp add: entry_ok_def in_flight_def)
  next
    case False
    with e reg have "entry_ok w i j" using w by (simp add: consistent_def)
    then show ?thesis by (rule entry_ok_kept) (use False q'(2) r'(2) in auto)
  qed
  moreover have "tasks_ok ?w'"
    using w q'(1) r'(1) by (auto simp: consistent_def tasks_ok_def)
  moreover have "distinct (task_ids ?w')" using d' by (simp add: task_ids_def)
  ultimately show ?thesis by (simp add: consistent_def)
qed

lemma consistent_task_direct:
  assumes w: "consistent w" and q: "job \<in> set (queued w)"
    and p: "process_conversion conv t0 t1 t2 job (st w) = (exn, job', s')"
  shows "consistent (w\<lparr>st := s', queued := remove1 job (queued w)\<rparr>)"
proof -
  note s = process_conversion_summary [OF p]
  from w have d: "distinct (task_ids w)" by (simp add: consistent_def)
  note ids = queued_ids_remove1 [OF d q]
  from w q have jq: "download_url job = None" "job_id job \<in> issued w"
    by (auto simp: consistent_def tasks_ok_def)
  note k = process_conversion_stored [OF p jq(1)]
  from d have dr: "distinct (map (job_id \<circ> fst) (running w))"
    and dj: "job_id ` set (queued w) \<inter> (job_id \<circ> fst) ` set (running w) = {}"
    by (simp_all add: task_ids_def)
  have d': "distinct (map job_id (remove1 job (queued w)) @ map (job_id \<circ> fst) (running w))"
    using ids(1,3) dr dj by auto
  have "consistent (w\<lparr>st := s', queued := remove1 job (queued w), running := running w\<rparr>)"
    using w s(2) jq(2) k(1) k(2) s(3) set_remove1_subset ids(1) subset_refl _ d'
    by (rule consistent_finish) (use ids(2) in auto)
  then show ?thesis by simp
qed

lemma consistent_task_end:
  assumes w: "consistent w" and r: "(job, t0) \<in> set (running w)"
    and p: "process_finish t0 t1 t2 out job ((st w)\<lparr>disk := fs'\<rparr>) = (exn, job', s')"
  shows "consistent (w\<lparr>st := s', running := remove1 (job, t0) (running w)\<rparr>)"
proof -
  note s = process_finish_summary [OF p]
  from w have d: "distinct (task_ids w)" by (simp add: consistent_def)
  note ids = running_ids_remove1 [OF d r]
  from w r have jq: "download_url job = None" "job_id job \<in> issued w"
    and jp: "status job = PROCESSING"
    by (auto simp: consistent_def tasks_ok_def)
  note k = process_finish_stored [OF p jp jq(1)]
  from d have dq: "distinct (map job_id (queued w))"
    and dj: "job_id ` set (queued w) \<inter> (job_id \<circ> fst) ` set (running w) = {}"
    by (simp_all add: task_ids_def)
  have d': "distinct (map job_id (queued w) @ map (job_id \<circ> fst) (remove1 (job, t0) (running w)))"
    using ids(1,3) dq dj by auto
  have reg: "conversion_jobs s' = (conversion_jobs (st w))(job_id job \<mapsto> job')"
    using s(3) by simp
  have "consistent (w\<lparr>st := s', queued := queued w, running := remove1 (job, t0) (running w)\<rparr>)"
    using w s(2) jq(2) k(1) k(2) reg subset_refl _ set_remove1_subset _ d'
    by (rule consistent_finish) (use ids(1,2) in auto)
  then show ?thesis by simp
qed

lemma consistent_step:
  assumes "step w w'" and "consistent w"
  shows "consistent w'"
  using assms
  by (induction rule: step.induct)
     (auto intro: consistent_submit consistent_task_begin consistent_task_direct
        consistent_task_end consistent_cleanup)

lemma reachable_consistent: "reachable w \<Longrightarrow> consistent w"
  by (induction rule: reachable.induct) (auto intro: consistent_initial consistent_step)

lemma steps_consistent: "step\<^sup>*\<^sup>* w w' \<Longrightarrow> consistent w \<Longrightarrow> consistent w'"
  by (induction rule: rtranclp_induct) (auto intro: consistent_step)


lemma advance_refl: "advance w w jid"
  by (simp add: advance_def)

lemma phase_le_2: "phase w jid \<le> 2"
  by (simp add: phase_def)

lemma advance_trans: "advance w w' jid \<Longrightarrow> advance w' w'' jid \<Longrightarrow> advance w w'' jid"
  using phase_le_2 [of w'' jid] phase_le_2 [of w' jid]
  unfolding advance_def by (elim disjE conjE) auto

lemma advance_same_tasks:
  assumes "jid \<in> job_id ` set (queued w') \<longleftrightarrow> jid \<in> job_id ` set (queued w)"
    and "jid \<in> (job_id \<circ> fst) ` set (running w') \<longleftrightarrow> jid \<in> (job_id \<circ> fst) ` set (running w)"
    and "conversion_jobs (st w') jid = None \<or> conversion_jobs (st w') jid = conversion_jobs (st w) jid"
  shows "advance w w' jid"
  using assms by (simp add: advance_def phase_def)

lemma step_advance:
  assumes "step w w'" and "consistent w" and "jid \<in> issued w"
  shows "advance w w' jid \<and> jid \<in> issued w'"
  using assms
proof (induction rule: step.induct)
  case (submit env w upload conversion_type from_fmt to_fmt res tasks s')
  from handle_conversion_cases [OF submit(2)]
  consider "tasks = []" "conversion_jobs s' = conversion_jobs (st w)"
    | job where "tasks = [job]" "conversion_jobs s' = (conversion_jobs (st w))(job_id job \<mapsto> job)"
        "job_id job = uuid_str (job_uuid env)"
    by auto
  then show ?case
  proof cases
    case 1
    then show ?thesis using submit(4) by (auto intro!: advance_same_tasks)
  next
    case 2
    with submit(1,4) have "jid \<noteq> job_id job" by auto
    then show ?thesis using 2 submit(4) by (auto intro!: advance_same_tasks)
  qed
next
  case (task_begin job w job1 s1 start_time)
  from task_begin(3) have j1: "job_id job1 = job_id job"
    and r1: "conversion_jobs s1 = (conversion_jobs (st w))(job_id job \<mapsto> job1)"
    by (auto simp: process_begin_eq)
  from task_begin(4) have d: "distinct (task_ids w)" by (simp add: consistent_def)
  note ids = queued_ids_remove1 [OF d task_begin(1)]
  show ?case
  proof (cases "jid = job_id job")
    case True
    then have "phase w jid = 0" using task_begin(1) by (auto simp: phase_def)
    moreover have "phase (w\<lparr>st := s1, queued := remove1 job (queued w),
               running := running w @ [(job1, start_time)]\<rparr>) jid = 1"
      using True ids(1) j1 by (simp add: phase_def)
    ultimately show ?thesis using task_begin(5) by (simp add: advance_def)
  next
    case False
    then show ?thesis using task_begin(5) ids(1) j1 r1
      by (auto intro!: advance_same_tasks)
  qed
next
  case (task_direct job w conv start_time t_done t_final exn job' s')
  note s = process_conversion_summary [OF task_direct(3)]
  from task_direct(4) have d: "distinct (task_ids w)" by (simp add: consistent_def)
  note ids = queued_ids_remove1 [OF d task_direct(1)]
  show ?case
  proof (cases "jid = job_id job")
    case True
    then have "phase w jid = 0" using task_direct(1) by (auto simp: phase_def)
    moreover have "phase (w\<lparr>st := s', queued := remove1 job (queued w)\<rparr>) jid = 2"
      using True ids(1,2) by (simp add: phase_def)
    ultimately show ?thesis using task_direct(5) by (simp add: advance_def)
  next
    case False
    then show ?thesis using task_direct(5) ids(1) s(3)
      by (auto intro!: advance_same_tasks)
  qed
next
  case (task_end job start_time w t_done t_final out fs' exn job' s')
  note s = process_finish_summary [OF task_end(2)]
  from task_end(3) have d: "distinct (task_ids w)" by (simp add: consistent_def)
  note ids = running_ids_remove1 [OF d task_end(1)]
  show ?case
  proof (cases "jid = job_id job")
    case True
    then have "phase w jid = 1" using task_end(1) ids(2) by (force simp: phase_def)
    moreover have "phase (w\<lparr>st := s', running := remove1 (job, start_time) (running w)\<rparr>) jid = 2"
      using True ids(1,2) by (simp add: phase_def)
    ultimately show ?thesis using task_end(4) by (simp add: advance_def)
  next
    case False
    have m: "jid \<in> (job_id \<circ> fst) ` set (remove1 (job, start_time) (running w))
         \<longleftrightarrow> jid \<in> (job_id \<circ> fst) ` set (running w)"
      unfolding ids(1) using False by simp
    have "conversion_jobs s' jid = conversion_jobs (st w) jid"
      using False s(3) by simp
    with m have "advance w (w\<lparr>st := s', running := remove1 (job, start_time) (running w)\<rparr>) jid"
      by (intro advance_same_tasks) simp_all
    then show ?thesis using task_end(4) by simp
  qed
next
  case (cleanup jid0 w res s')
  from cleanup_registry [OF cleanup(1)] show ?case
    using cleanup(3) by (auto intro!: advance_same_tasks)
qed

lemma steps_advance:
  assumes "step\<^sup>*\<^sup>* w w'" and "consistent w" and "jid \<in> issued w"
  shows "advance w w' jid \<and> jid \<in> issued w' \<and> consistent w'"
  using assms
proof (induction rule: rtranclp_induct)
  case base
  then show ?case by (simp add: advance_refl)
next
  case (step y z)
  then have a: "advance w y jid" and i: "jid \<in> issued y" and c: "consistent y" by simp_all
  from step_advance [OF step(2) c i] a consistent_step [OF step(2) c]
  show ?case by (auto intro: advance_trans)
qed

lemma process_finish_completed:
  assumes "process_finish t_start t_done t_final out job s = (pending, job', s')"
    and "status job' = COMPLETED" and "status job \<noteq> COMPLETED"
  shows "download_url job' \<noteq> None
         \<and> (\<exists>p n. converted_file_path job' = Some p \<and> disk s' p = Some n
                \<and> converted_file_size job' = Some (st_size n))"
proof -
  consider p n where "out = Returns True" "converted_file_path job = Some p" "disk s p = Some n"
    | m where "out = Raises (BaseException m)"
    | "\<not> (out = Returns True \<and> (\<exists>p. converted_file_path job = Some p \<and> disk s p \<noteq> None))"
      "\<forall>m. out \<noteq> Raises (BaseException m)"
    by (cases "out = Returns True \<and> (\<exists>p. converted_file_path job = Some p \<and> disk s p \<noteq> None)")
       auto
  then show ?thesis
  proof cases
    case 1
    from process_finish_success [OF 1(2,3), of t_start t_done t_final] assms(1) 1
    show ?thesis by (auto simp: Let_def)
  next
    case 2
    from process_finish_uncaught [of t_start t_done t_final m job s] assms 2
    show ?thesis by (auto simp: Let_def)
  next
    case 3
    from process_finish_failure [OF 3, of t_start t_done t_final] assms
    show ?thesis by (auto simp: Let_def)
  qed
qed

lemma validate_file_too_large:
  assumes "lstrip_dot (str_lower (path_suffix p)) \<in> set allowed"
    and "fs p = Some (File n)" and "50 * 1024 * 1024 < n"
  shows "validate_file fs p allowed = (False, ''File size exceeds 50MB limit'')"
  using assms by (simp add: validate_file_def os_path_getsize_def Let_def)

lemma cleanup_file_regular:
  "fs p = Some (File n) \<Longrightarrow> cleanup_file p fs = fs(p := None)"
  by (simp add: cleanup_file_def os_path_exists_def os_remove_def)

lemma handle_conversion_too_large:
  assumes ext: "lstrip_dot (str_lower (path_suffix (filename upload))) \<in> set (ALLOWED_FORMATS t)"
    and io: "io env = Saved" and big: "50 * 1024 * 1024 < content_length upload"
  shows "handle_conversion env upload bt t ff tf s =
     (Inl (HTTPException 400 ''File size exceeds 50MB limit''), bt,
      s\<lparr>disk := (disk s)(path_join CONVERSION_DIR (uuid_str (job_uuid env) @ ''_'' @ filename upload)
                   := None)\<rparr>)"
proof -
  let ?p = "path_join CONVERSION_DIR (uuid_str (job_uuid env) @ ''_'' @ filename upload)"
  let ?fs1 = "(disk s)(?p \<mapsto> File (content_length upload))"
  have sfx: "path_suffix ?p = path_suffix (filename upload)"
    using allowed_ext_suffix_nonempty [OF ext] by (rule path_suffix_scratch)
  have sv: "save_uploaded_file (io env) upload (uuid_str (job_uuid env) @ ''_'' @ filename upload)
              (disk s) = (Inr ?p, ?fs1)"
    by (simp add: save_uploaded_file_def io Let_def)
  have gs: "os_path_getsize ?fs1 ?p = Inr (content_length upload)"
    by (simp add: os_path_getsize_def)
  have vf: "validate_file ?fs1 ?p (ALLOWED_FORMATS t) = (False, ''File size exceeds 50MB limit'')"
    using ext big sfx by (intro validate_file_too_large [where n = "content_length upload"])
      simp_all
  have cl: "cleanup_file ?p ?fs1 = (disk s)(?p := None)"
    by (simp add: cleanup_file_regular [where n = "content_length upload"])
  show ?thesis
    using ext sv gs vf cl by (simp add: handle_conversion_def Let_def)
qed

lemma handle_conversion_not_invalid_format:
  assumes "lstrip_dot (str_lower (path_suffix (filename upload))) \<in> set (ALLOWED_FORMATS t)"
  shows "fst (handle_conversion env upload bt t ff tf s) \<noteq> Inl (InvalidFormat t)"
  using assms
  by (auto simp: handle_conversion_def InvalidFormat_def Let_def validate_file_def
      split: prod.splits sum.splits if_splits)

lemma validate_file_invalid_type:
  "(validate_file fs p allowed = (False, ''Invalid file type. Allowed: '' @ join '', '' allowed))
     = (lstrip_dot (str_lower (path_suffix p)) \<notin> set allowed)"
  by (auto simp: validate_file_def Let_def split: sum.splits)

section \<open>The sample inputs evaluated\<close>

lemma ex_eval:
  "lstrip_dot (str_lower (path_suffix ''notes.txt'')) = ''txt''"
  "uuid_str 7 = ''00000000-0000-0000-0000-000000000007''"
  "generate_unique_filename 2 ''notes.txt'' ''pdf'' = ''notes_00000000.pdf''"
  "path_join CONVERSION_DIR ''00000000-0000-0000-0000-000000000007_notes.txt''
     = ''/tmp/conversions/00000000-0000-0000-0000-000000000007_notes.txt''"
  "path_join ''/tmp/conversions'' ''notes_00000000.pdf'' = ''/tmp/conversions/notes_00000000.pdf''"
  "lstrip_dot (str_lower (path_suffix
      ''/tmp/conversions/00000000-0000-0000-0000-000000000007_notes.txt'')) = ''txt''"
  by code_simp+

lemma ex_submit_eq:
  "ex_submit =
     (Inr \<lparr>r_success = True, r_job_id = ex_id, r_original_filename = ''notes.txt'',
           r_converted_filename = ''notes_00000000.pdf'', r_file_size = 10,
           r_converted_file_size = None, r_conversion_time = None,
           r_download_url = ''/api/download/00000000-0000-0000-0000-000000000007'',
           r_message = ''Conversion started successfully''\<rparr>,
      [ex_pending],
      \<lparr>conversion_jobs = [ex_id \<mapsto> ex_pending],
       disk = [''/tmp/conversions/00000000-0000-0000-0000-000000000007_notes.txt'' \<mapsto> File 10]\<rparr>)"
  by (simp add: ex_submit_def handle_conversion_def ex_env_def ex_upload_def ex_eval
      ALLOWED_FORMATS_def save_uploaded_file_def os_path_getsize_def os_path_exists_def
      validate_file_def initial_def ex_pending_def ex_id_def Let_def)

lemma ex_submitted_eq:
  "ex_submitted =
     \<lparr>st = \<lparr>conversion_jobs = [ex_id \<mapsto> ex_pending],
             disk = [''/tmp/conversions/00000000-0000-0000-0000-000000000007_notes.txt'' \<mapsto> File 10]\<rparr>,
      queued = [ex_pending], running = [], issued = {ex_id}\<rparr>"
  by (simp add: ex_submitted_def ex_submit_eq initial_def ex_pending_def)

lemma step_ex_submitted: "step (initial Map.empty) ex_submitted"
  unfolding ex_submitted_def
proof (rule step.submit)
  show "uuid_str (job_uuid ex_env) \<notin> issued (initial Map.empty)" by (simp add: initial_def)
  show "handle_conversion ex_env ex_upload [] TXT_TO_PDF ''txt'' ''pdf'' (st (initial Map.empty))
      = (fst ex_submit, fst (snd ex_submit), snd (snd ex_submit))"
    by (simp add: ex_submit_def)
qed

lemma select_converter_ex_pending: "select_converter ex_pending = Some text_to_pdf"
  by (simp add: select_converter_def ex_pending_def)

lemma step_ex_started: "step ex_submitted ex_started"
  unfolding ex_started_def
  by (rule step.task_begin) (simp_all add: ex_submitted_eq select_converter_ex_pending)

lemma ex_started_eq:
  "ex_started =
     \<lparr>st = \<lparr>conversion_jobs = [ex_id \<mapsto> ex_pending\<lparr>status := PROCESSING\<rparr>],
             disk = [''/tmp/conversions/00000000-0000-0000-0000-000000000007_notes.txt'' \<mapsto> File 10]\<rparr>,
      queued = [], running = [(ex_pending\<lparr>status := PROCESSING\<rparr>, 0)], issued = {ex_id}\<rparr>"
  by (simp add: ex_started_def ex_submitted_eq process_begin_eq) (simp add: ex_pending_def)

lemma step_ex_finished: "step ex_started ex_finished"
  unfolding ex_finished_def
  by (rule step.task_end [where exn = "fst (process_finish 0 1 2 (Returns True)
           (ex_pending\<lparr>status := PROCESSING\<rparr>)
           ((st ex_started)\<lparr>disk := (disk (st ex_started))
              (''/tmp/conversions/notes_00000000.pdf'' \<mapsto> File 2048)\<rparr>))"
         and job' = "fst (snd (process_finish 0 1 2 (Returns True)
           (ex_pending\<lparr>status := PROCESSING\<rparr>)
           ((st ex_started)\<lparr>disk := (disk (st ex_started))
              (''/tmp/conversions/notes_00000000.pdf'' \<mapsto> File 2048)\<rparr>)))"])
     (simp_all add: ex_started_eq)

lemma ex_finished_registry:
  "conversion_jobs (st ex_finished) ex_id =
     Some (ex_pending\<lparr>status := COMPLETED, converted_file_size := Some 2048,
                       conversion_time := Some (round_2dp (1 - 0)),
                       download_url := Some (''/api/download/'' @ ex_id),
                       completed_at := Some 2\<rparr>)"
  by (simp add: ex_finished_def ex_started_eq
      process_finish_success [where p = "''/tmp/conversions/notes_00000000.pdf''" and n = "File 2048"]
      ex_pending_def Let_def)

lemma step_ex_cleaned: "step ex_started ex_cleaned"
  unfolding ex_cleaned_def
  by (rule step.cleanup [where res = "fst (cleanup_conversion_files ex_id (st ex_started))"])
     simp

lemma ex_cleaned_eq:
  "ex_cleaned =
     \<lparr>st = \<lparr>conversion_jobs = Map.empty, disk = Map.empty\<rparr>,
      queued = [], running = [(ex_pending\<lparr>status := PROCESSING\<rparr>, 0)], issued = {ex_id}\<rparr>"
  by (simp add: ex_cleaned_def ex_started_eq cleanup_conversion_files_def cleanup_if_set_def
      cleanup_file_def os_path_exists_def os_remove_def ex_pending_def Let_def)

lemma step_ex_resumed: "step ex_cleaned ex_resumed"
  unfolding ex_resumed_def
  by (rule step.task_end [where exn = "fst (process_finish 0 1 2 (Returns True)
           (ex_pending\<lparr>status := PROCESSING\<rparr>)
           ((st ex_cleaned)\<lparr>disk := (disk (st ex_cleaned))
              (''/tmp/conversions/notes_00000000.pdf'' \<mapsto> File 2048)\<rparr>))"
         and job' = "fst (snd (process_finish 0 1 2 (Returns True)
           (ex_pending\<lparr>status := PROCESSING\<rparr>)
           ((st ex_cleaned)\<lparr>disk := (disk (st ex_cleaned))
              (''/tmp/conversions/notes_00000000.pdf'' \<mapsto> File 2048)\<rparr>)))"])
     (simp_all add: ex_cleaned_eq)

lemma ex_resumed_registry:
  "conversion_jobs (st ex_resumed) ex_id =
     Some (ex_pending\<lparr>status := COMPLETED, converted_file_size := Some 2048,
                       conversion_time := Some (round_2dp (1 - 0)),
                       download_url := Some (''/api/download/'' @ ex_id),
                       completed_at := Some 2\<rparr>)"
  by (simp add: ex_resumed_def ex_cleaned_eq
      process_finish_success [where p = "''/tmp/conversions/notes_00000000.pdf''" and n = "File 2048"]
      ex_pending_def Let_def)

lemma step_ex_cancelled: "step ex_started ex_cancelled"
  unfolding ex_cancelled_def
  by (rule step.task_end [where exn = "fst (process_finish 0 1 2 (Raises (BaseException []))
           (ex_pending\<lparr>status := PROCESSING\<rparr>)
           ((st ex_started)\<lparr>disk := disk (st ex_started)\<rparr>))"
         and job' = "fst (snd (process_finish 0 1 2 (Raises (BaseException []))
           (ex_pending\<lparr>status := PROCESSING\<rparr>)
           ((st ex_started)\<lparr>disk := disk (st ex_started)\<rparr>)))"])
     (simp_all add: ex_started_eq)

lemma ex_cancelled_eq:
  "ex_cancelled =
     \<lparr>st = \<lparr>conversion_jobs =
               [ex_id \<mapsto> ex_pending\<lparr>status := PROCESSING, completed_at := Some 2\<rparr>],
             disk = [''/tmp/conversions/00000000-0000-0000-0000-000000000007_notes.txt'' \<mapsto> File 10]\<rparr>,
      queued = [], running = [], issued = {ex_id}\<rparr>"
  by (simp add: ex_cancelled_def ex_started_eq process_finish_uncaught Let_def)
     (simp add: ex_pending_def)

lemma reachable_examples:
  "reachable ex_submitted" "reachable ex_started" "reachable ex_finished"
  "reachable ex_cleaned" "reachable ex_resumed" "reachable ex_cancelled"
proof -
  show s: "reachable ex_submitted"
    by (rule reachable.after [OF reachable.start step_ex_submitted])
  show t: "reachable ex_started" by (rule reachable.after [OF s step_ex_started])
  show "reachable ex_finished" by (rule reachable.after [OF t step_ex_finished])
  show c: "reachable ex_cleaned" by (rule reachable.after [OF t step_ex_cleaned])
  show "reachable ex_resumed" by (rule reachable.after [OF c step_ex_resumed])
  show "reachable ex_cancelled" by (rule reachable.after [OF t step_ex_cancelled])
qed

lemma ex_ext_eval:
  "lstrip_dot (str_lower (path_suffix ''image.exe'')) = ''exe''"
  "lstrip_dot (str_lower (path_suffix ''report.docx'')) = ''docx''"
  "lstrip_dot (str_lower (path_suffix ''photo.PNG'')) = ''png''"
  by code_simp+

lemma ex_case_eval:
  "str_lower (path_suffix ''photo.PNG'') = str_lower (path_suffix ''photo.png'')"
  by code_simp

lemma ex_written_run:
  "process_conversion (writing_converter 2048) 0 1 2 ex_job ex_state =
     (None,
      ex_job\<lparr>status := COMPLETED, converted_file_size := Some 2048,
              conversion_time := Some (round_2dp (1 - 0)),
              download_url := Some ''/api/download/j1'', completed_at := Some 2\<rparr>,
      \<lparr>conversion_jobs = [''j1'' \<mapsto> ex_job\<lparr>status := COMPLETED, converted_file_size := Some 2048,
              conversion_time := Some (round_2dp (1 - 0)),
              download_url := Some ''/api/download/j1'', completed_at := Some 2\<rparr>],
       disk = [''/tmp/conversions/j1_notes.txt'' \<mapsto> File 10,
               ''/tmp/conversions/notes_0000abcd.pdf'' \<mapsto> File 2048]\<rparr>)"
  by (simp add: process_conversion_eq invoke_converter_def select_converter_def ex_job_def
      ex_state_def writing_converter_def process_finish_success [where n = "File 2048"] Let_def)

lemma ex_finished_st:
  "st ex_finished =
     \<lparr>conversion_jobs = [ex_id \<mapsto> ex_pending\<lparr>status := COMPLETED,
          converted_file_size := Some 2048, conversion_time := Some (round_2dp (1 - 0)),
          download_url := Some (''/api/download/'' @ ex_id), completed_at := Some 2\<rparr>],
      disk = [''/tmp/conversions/00000000-0000-0000-0000-000000000007_notes.txt'' \<mapsto> File 10,
              ''/tmp/conversions/notes_00000000.pdf'' \<mapsto> File 2048]\<rparr>"
  by (simp add: ex_finished_def ex_started_eq
      process_finish_success [where p = "''/tmp/conversions/notes_00000000.pdf''" and n = "File 2048"]
      ex_pending_def Let_def)

lemma ex_finished_tasks: "queued ex_finished = [] \<and> running ex_finished = []"
  by (simp add: ex_finished_def ex_started_eq)

section \<open>Reachable states: lemmas\<close>

lemma reachable_job_ok:
  "reachable w \<Longrightarrow> conversion_jobs (st w) jid = Some job \<Longrightarrow> job_ok job \<and> job_id job = jid"
  using reachable_consistent [of w] by (simp add: consistent_def entry_ok_def)


lemma cleanup_file_apply:
  "cleanup_file q fs p =
     (if p = q then (case fs q of Some (File n) \<Rightarrow> None | x \<Rightarrow> x) else fs p)"
  by (auto simp: cleanup_file_def os_path_exists_def os_remove_def split: option.splits node.splits)

lemma cleanup_removes_files:
  assumes "cleanup_conversion_files jid s = (res, s')" and "conversion_jobs s jid = Some job"
    and "file_path job = Some p \<or> converted_file_path job = Some p"
    and "p \<noteq> []" and "disk s p = Some (File n)"
  shows "disk s' p = None"
  using assms
  by (auto simp: cleanup_conversion_files_def cleanup_if_set_def cleanup_file_apply Let_def
      split: option.splits node.splits if_splits)

lemma unknown_job_not_found:
  assumes "conversion_jobs s jid = None"
  shows "get_conversion_status jid s = Inl JobNotFound"
    and "download_converted_file jid s = Inl JobNotFound"
    and "cleanup_conversion_files jid s = (Inl JobNotFound, s)"
  using assms
  by (simp_all add: get_conversion_status_def download_converted_file_def
      cleanup_conversion_files_def JobNotFound_def)

lemma cleaned_stays_absent:
  assumes r: "reachable w" and j: "conversion_jobs (st w) jid = Some job"
    and nf: "\<not> in_flight w jid"
    and c: "cleanup_conversion_files jid (st w) = (res, s')"
    and s: "step\<^sup>*\<^sup>* (w\<lparr>st := s'\<rparr>) w''"
  shows "conversion_jobs (st w'') jid = None"
proof -
  let ?w1 = "w\<lparr>st := s'\<rparr>"
  from r have cw: "consistent w" by (rule reachable_consistent)
  with j have i: "jid \<in> issued w" by (simp add: consistent_def entry_ok_def)
  have st: "step w ?w1" using c by (rule step.cleanup)
  have c1: "consistent ?w1" using st cw by (rule consistent_step)
  have i1: "jid \<in> issued ?w1" using i by simp
  have p1: "phase ?w1 jid = 2" using nf by (simp add: phase_def in_flight_def)
  have n1: "conversion_jobs (st ?w1) jid = None" using cleanup_registry [OF c] by simp
  from steps_advance [OF s c1 i1] have "advance ?w1 w'' jid" by simp
  with p1 n1 phase_le_2 [of w'' jid] show ?thesis by (auto simp: advance_def)
qed

section \<open>The step that stores a job\<close>


text \<open>
  A step that changes what is stored under an id is a submission (the job is PENDING), the
  start of a task with a routine (PROCESSING), a task without a routine run to its end,
  or the end of a suspended task.
\<close>

lemma step_store_cases:
  assumes "step w w'" and "conversion_jobs (st w') jid = Some j'"
    and "conversion_jobs (st w) jid \<noteq> Some j'"
  obtains (submitted) "status j' = PENDING"
    | (begun) job where "job \<in> set (queued w)" "job_id job = jid" "status j' = PROCESSING"
    | (direct) job conv t0 t1 t2 exn s' where
        "job \<in> set (queued w)" "select_converter job = None" "job_id job = jid"
        "process_conversion conv t0 t1 t2 job (st w) = (exn, j', s')"
        "w' = w\<lparr>st := s', queued := remove1 job (queued w)\<rparr>"
    | (ended) job t0 t1 t2 out fs' exn s' where
        "(job, t0) \<in> set (running w)" "job_id job = jid"
        "process_finish t0 t1 t2 out job ((st w)\<lparr>disk := fs'\<rparr>) = (exn, j', s')"
        "w' = w\<lparr>st := s', running := remove1 (job, t0) (running w)\<rparr>"
  using assms(1)
proof (cases rule: step.cases)
  case (submit env upload conversion_type from_fmt to_fmt res tasks s')
  from handle_conversion_cases [OF submit(3)]
  consider "tasks = []" "conversion_jobs s' = conversion_jobs (st w)"
    | job where "tasks = [job]" "conversion_jobs s' = (conversion_jobs (st w))(job_id job \<mapsto> job)"
        "status job = PENDING"
    by auto
  then show ?thesis
  proof cases
    case 1
    with submit(1) assms(2,3) show ?thesis by simp
  next
    case 2
    with submit(1) assms(2,3) have "j' = job" by (simp split: if_splits)
    with 2(3) show ?thesis by (intro submitted) simp
  qed
next
  case (task_begin job job1 s1 start_time)
  from task_begin(4) have j1: "job1 = job\<lparr>status := PROCESSING\<rparr>"
    and r1: "conversion_jobs s1 = (conversion_jobs (st w))(job_id job \<mapsto> job1)"
    by (auto simp: process_begin_eq)
  with task_begin(1) assms(2,3) have "jid = job_id job \<and> j' = job1" by (simp split: if_splits)
  with j1 task_begin(2) show ?thesis by (intro begun [of job]) simp_all
next
  case (task_direct job conv start_time t_done t_final exn job' s')
  note s = process_conversion_summary [OF task_direct(4)]
  from s(3) task_direct(1) assms(2,3) have "jid = job_id job \<and> j' = job'"
    by (simp split: if_splits)
  with task_direct show ?thesis by (intro direct [of job conv start_time t_done t_final exn s']) simp_all
next
  case (task_end job start_time t_done t_final out fs' exn job' s')
  note s = process_finish_summary [OF task_end(3)]
  from s(3) task_end(1) assms(2,3) have "jid = job_id job \<and> j' = job'"
    by (simp split: if_splits)
  with task_end show ?thesis by (intro ended [of job start_time t_done t_final out fs' exn s']) simp_all
next
  case (cleanup jid0 res s')
  from cleanup_registry [OF cleanup(2)] cleanup(1) assms(2,3) show ?thesis
    by (simp split: if_splits)
qed




text \<open>The step that stores COMPLETED finds the converted file on the disk.\<close>

lemma step_completed_artifact:
  assumes r: "reachable w" and s: "step w w'"
    and j': "conversion_jobs (st w') jid = Some j'" and cp: "status j' = COMPLETED"
    and ch: "conversion_jobs (st w) jid \<noteq> Some j'"
  shows "download_url j' \<noteq> None
         \<and> (\<exists>p n. converted_file_path j' = Some p \<and> disk (st w') p = Some n
                \<and> converted_file_size j' = Some (st_size n))"
proof -
  from r have c: "consistent w" by (rule reachable_consistent)
  from s j' ch show ?thesis
  proof (cases rule: step_store_cases)
    case submitted
    with cp show ?thesis by simp
  next
    case (begun job)
    with cp show ?thesis by simp
  next
    case (direct job conv t0 t1 t2 exn s')
    from process_conversion_direct(2) [OF direct(4,2)] cp show ?thesis by simp
  next
    case (ended job t0 t1 t2 out fs' exn s')
    from c ended(1) have "status job = PROCESSING" by (auto simp: consistent_def tasks_ok_def)
    then have "status job \<noteq> COMPLETED" by simp
    from process_finish_completed [OF ended(3) cp this] ended(4) show ?thesis by simp
  qed
qed

section \<open>Two further runs of the service evaluated\<close>

lemma ex_blank_eval:
  "lstrip_dot (str_lower (path_suffix ''a_00000000.pdf'')) = ''pdf''"
  "uuid_str 10 = ''00000000-0000-0000-0000-00000000000a''"
  "generate_unique_filename 3 ''a_00000000.pdf'' ''docx'' = ''a_00000000_00000000.docx''"
  "path_join CONVERSION_DIR ''00000000-0000-0000-0000-00000000000a_a_00000000.pdf''
     = ''/tmp/conversions/00000000-0000-0000-0000-00000000000a_a_00000000.pdf''"
  "path_join ''/tmp/conversions'' ''a_00000000_00000000.docx''
     = ''/tmp/conversions/a_00000000_00000000.docx''"
  "lstrip_dot (str_lower (path_suffix
      ''/tmp/conversions/00000000-0000-0000-0000-00000000000a_a_00000000.pdf'')) = ''pdf''"
  by code_simp+

lemma ex_blank_submit_eq:
  "ex_blank_submit =
     (Inr \<lparr>r_success = True, r_job_id = ex_blank_id, r_original_filename = ''a_00000000.pdf'',
           r_converted_filename = ''a_00000000_00000000.docx'', r_file_size = 0,
           r_converted_file_size = None, r_conversion_time = None,
           r_download_url = ''/api/download/00000000-0000-0000-0000-00000000000a'',
           r_message = ''Conversion started successfully''\<rparr>,
      [ex_blank_pending],
      \<lparr>conversion_jobs = [ex_blank_id \<mapsto> ex_blank_pending],
       disk = [''/tmp/conversions/00000000-0000-0000-0000-00000000000a_a_00000000.pdf''
                 \<mapsto> File 0]\<rparr>)"
  by (simp add: ex_blank_submit_def handle_conversion_def ex_blank_env_def ex_blank_upload_def
      ex_blank_eval ALLOWED_FORMATS_def save_uploaded_file_def os_path_getsize_def
      os_path_exists_def validate_file_def initial_def ex_blank_pending_def ex_blank_id_def
      Let_def)

lemma ex_blank_submitted_eq:
  "ex_blank_submitted =
     \<lparr>st = \<lparr>conversion_jobs = [ex_blank_id \<mapsto> ex_blank_pending],
             disk = [''/tmp/conversions/00000000-0000-0000-0000-00000000000a_a_00000000.pdf''
                       \<mapsto> File 0]\<rparr>,
      queued = [ex_blank_pending], running = [], issued = {ex_blank_id}\<rparr>"
  by (simp add: ex_blank_submitted_def ex_blank_submit_eq initial_def ex_blank_pending_def)

lemma step_ex_blank_submitted: "step (initial Map.empty) ex_blank_submitted"
  unfolding ex_blank_submitted_def
proof (rule step.submit)
  show "uuid_str (job_uuid ex_blank_env) \<notin> issued (initial Map.empty)"
    by (simp add: initial_def)
  show "handle_conversion ex_blank_env ex_blank_upload [] PDF_TO_WORD ''pdf'' ''word''
          (st (initial Map.empty))
      = (fst ex_blank_submit, fst (snd ex_blank_submit), snd (snd ex_blank_submit))"
    by (simp add: ex_blank_submit_def)
qed

lemma ex_docx_eval:
  "lstrip_dot (str_lower (path_suffix ''00000000-0000-0000-0000-00000000000a_a.docx'')) = ''docx''"
  "uuid_str 11 = ''00000000-0000-0000-0000-00000000000b''"
  "generate_unique_filename 2 ''00000000-0000-0000-0000-00000000000a_a.docx'' ''pdf''
     = ''00000000-0000-0000-0000-00000000000a_a_00000000.pdf''"
  "path_join CONVERSION_DIR
      ''00000000-0000-0000-0000-00000000000b_00000000-0000-0000-0000-00000000000a_a.docx''
     = ''/tmp/conversions/00000000-0000-0000-0000-00000000000b_00000000-0000-0000-0000-00000000000a_a.docx''"
  "path_join ''/tmp/conversions'' ''00000000-0000-0000-0000-00000000000a_a_00000000.pdf''
     = ''/tmp/conversions/00000000-0000-0000-0000-00000000000a_a_00000000.pdf''"
  "lstrip_dot (str_lower (path_suffix
      ''/tmp/conversions/00000000-0000-0000-0000-00000000000b_00000000-0000-0000-0000-00000000000a_a.docx''))
     = ''docx''"
  by code_simp+

lemma ex_docx_submit_eq:
  "ex_docx_submit =
     (Inr \<lparr>r_success = True, r_job_id = ex_docx_id,
           r_original_filename = ''00000000-0000-0000-0000-00000000000a_a.docx'',
           r_converted_filename = ''00000000-0000-0000-0000-00000000000a_a_00000000.pdf'',
           r_file_size = 10, r_converted_file_size = None, r_conversion_time = None,
           r_download_url = ''/api/download/00000000-0000-0000-0000-00000000000b'',
           r_message = ''Conversion started successfully''\<rparr>,
      [ex_docx_pending],
      \<lparr>conversion_jobs = [ex_blank_id \<mapsto> ex_blank_pending, ex_docx_id \<mapsto> ex_docx_pending],
       disk = [''/tmp/conversions/00000000-0000-0000-0000-00000000000a_a_00000000.pdf''
                 \<mapsto> File 0,
               ''/tmp/conversions/00000000-0000-0000-0000-00000000000b_00000000-0000-0000-0000-00000000000a_a.docx''
                 \<mapsto> File 10]\<rparr>)"
  by (simp add: ex_docx_submit_def handle_conversion_def ex_docx_env_def ex_docx_upload_def
      ex_docx_eval ALLOWED_FORMATS_def save_uploaded_file_def os_path_getsize_def
      os_path_exists_def validate_file_def ex_blank_submitted_eq ex_docx_pending_def
      ex_docx_id_def Let_def)

lemma ex_docx_submitted_eq:
  "ex_docx_submitted =
     \<lparr>st = \<lparr>conversion_jobs = [ex_blank_id \<mapsto> ex_blank_pending, ex_docx_id \<mapsto> ex_docx_pending],
             disk = [''/tmp/conversions/00000000-0000-0000-0000-00000000000a_a_00000000.pdf''
                       \<mapsto> File 0,
                     ''/tmp/conversions/00000000-0000-0000-0000-00000000000b_00000000-0000-0000-0000-00000000000a_a.docx''
                       \<mapsto> File 10]\<rparr>,
      queued = [ex_blank_pending, ex_docx_pending], running = [],
      issued = {ex_blank_id, ex_docx_id}\<rparr>"
  by (simp add: ex_docx_submitted_def ex_docx_submit_eq ex_blank_submitted_eq)
     (auto simp: ex_docx_pending_def)

lemma step_ex_docx_submitted: "step ex_blank_submitted ex_docx_submitted"
  unfolding ex_docx_submitted_def
proof (rule step.submit)
  show "uuid_str (job_uuid ex_docx_env) \<notin> issued ex_blank_submitted"
    by (simp add: ex_docx_env_def ex_docx_eval ex_blank_submitted_eq ex_blank_id_def)
  show "handle_conversion ex_docx_env ex_docx_upload [] WORD_TO_PDF ''word'' ''pdf''
          (st ex_blank_submitted)
      = (fst ex_docx_submit, fst (snd ex_docx_submit), snd (snd ex_docx_submit))"
    by (simp add: ex_docx_submit_def)
qed

lemma select_converter_ex_docx: "select_converter ex_docx_pending = Some word_to_pdf"
  by (simp add: select_converter_def ex_docx_pending_def)

lemma ex_ids_differ: "ex_blank_id \<noteq> ex_docx_id" "ex_id \<noteq> ex_twin_id"
  by (simp_all add: ex_blank_id_def ex_docx_id_def ex_id_def ex_twin_id_def)

lemma ex_pending_differ: "ex_blank_pending \<noteq> ex_docx_pending"
proof
  assume "ex_blank_pending = ex_docx_pending"
  then have "job_id ex_blank_pending = job_id ex_docx_pending" by (rule arg_cong)
  then show False using ex_ids_differ(1) by (simp add: ex_blank_pending_def ex_docx_pending_def)
qed

lemma step_ex_docx_started: "step ex_docx_submitted ex_docx_started"
  unfolding ex_docx_started_def
  by (rule step.task_begin) (simp_all add: ex_docx_submitted_eq select_converter_ex_docx)

lemma ex_docx_started_eq:
  "ex_docx_started =
     \<lparr>st = \<lparr>conversion_jobs = [ex_blank_id \<mapsto> ex_blank_pending,
                                 ex_docx_id \<mapsto> ex_docx_pending\<lparr>status := PROCESSING\<rparr>],
             disk = [''/tmp/conversions/00000000-0000-0000-0000-00000000000a_a_00000000.pdf''
                       \<mapsto> File 0,
                     ''/tmp/conversions/00000000-0000-0000-0000-00000000000b_00000000-0000-0000-0000-00000000000a_a.docx''
                       \<mapsto> File 10]\<rparr>,
      queued = [ex_blank_pending], running = [(ex_docx_pending\<lparr>status := PROCESSING\<rparr>, 0)],
      issued = {ex_blank_id, ex_docx_id}\<rparr>"
  using ex_pending_differ
  by (simp add: ex_docx_started_def ex_docx_submitted_eq process_begin_eq)
     (simp add: ex_docx_pending_def)

text \<open>
  The path at which LibreOffice would have written its PDF for the second job,
  \<^verbatim>\<open>Path(output_path).parent / (Path(input_path).stem + '.pdf')\<close>, holds nothing; the routine
  returns true because the output path exists, and leaves the disk as it is.
\<close>

lemma ex_docx_generated_pdf:
  "path_join ''/tmp/conversions''
     (path_stem ''/tmp/conversions/00000000-0000-0000-0000-00000000000b_00000000-0000-0000-0000-00000000000a_a.docx''
        @ ''.pdf'')
   = ''/tmp/conversions/00000000-0000-0000-0000-00000000000b_00000000-0000-0000-0000-00000000000a_a.pdf''"
  by code_simp

lemma ex_docx_run:
  "invoke_converter idle_libreoffice (ex_docx_pending\<lparr>status := PROCESSING\<rparr>)
     (disk (st ex_docx_started)) = (Returns True, disk (st ex_docx_started))"
proof -
  have p: "converted_file_path (ex_docx_pending\<lparr>status := PROCESSING\<rparr>)
      = Some ''/tmp/conversions/00000000-0000-0000-0000-00000000000a_a_00000000.pdf''"
    by (simp add: ex_docx_pending_def)
  have d: "os_path_exists (disk (st ex_docx_started))
      ''/tmp/conversions/00000000-0000-0000-0000-00000000000a_a_00000000.pdf''"
    by (simp add: ex_docx_started_eq os_path_exists_def)
  have f: "file_path (ex_docx_pending\<lparr>status := PROCESSING\<rparr>) \<noteq> None"
    by (simp add: ex_docx_pending_def)
  show ?thesis
    using d f
    by (auto simp: invoke_converter_def select_converter_ex_docx idle_libreoffice_def p)
qed

lemma step_ex_docx_finished: "step ex_docx_started ex_docx_finished"
  unfolding ex_docx_finished_def
  by (rule step.task_end [where exn = "fst (process_finish 0 1 2
           (fst (invoke_converter idle_libreoffice (ex_docx_pending\<lparr>status := PROCESSING\<rparr>)
                   (disk (st ex_docx_started))))
           (ex_docx_pending\<lparr>status := PROCESSING\<rparr>)
           ((st ex_docx_started)\<lparr>disk :=
              snd (invoke_converter idle_libreoffice (ex_docx_pending\<lparr>status := PROCESSING\<rparr>)
                     (disk (st ex_docx_started)))\<rparr>))"
         and job' = "fst (snd (process_finish 0 1 2
           (fst (invoke_converter idle_libreoffice (ex_docx_pending\<lparr>status := PROCESSING\<rparr>)
                   (disk (st ex_docx_started))))
           (ex_docx_pending\<lparr>status := PROCESSING\<rparr>)
           ((st ex_docx_started)\<lparr>disk :=
              snd (invoke_converter idle_libreoffice (ex_docx_pending\<lparr>status := PROCESSING\<rparr>)
                     (disk (st ex_docx_started)))\<rparr>)))"])
     (simp_all add: ex_docx_started_eq)

lemma ex_docx_finished_eq:
  "ex_docx_finished =
     \<lparr>st = \<lparr>conversion_jobs =
               [ex_blank_id \<mapsto> ex_blank_pending,
                ex_docx_id \<mapsto> ex_docx_pending\<lparr>status := COMPLETED,
                   converted_file_size := Some 0, conversion_time := Some (round_2dp (1 - 0)),
                   download_url := Some (''/api/download/'' @ ex_docx_id),
                   completed_at := Some 2\<rparr>],
             disk = [''/tmp/conversions/00000000-0000-0000-0000-00000000000a_a_00000000.pdf''
                       \<mapsto> File 0,
                     ''/tmp/conversions/00000000-0000-0000-0000-00000000000b_00000000-0000-0000-0000-00000000000a_a.docx''
                       \<mapsto> File 10]\<rparr>,
      queued = [ex_blank_pending], running = [], issued = {ex_blank_id, ex_docx_id}\<rparr>"
proof -
  have p: "converted_file_path (ex_docx_pending\<lparr>status := PROCESSING\<rparr>)
      = Some ''/tmp/conversions/00000000-0000-0000-0000-00000000000a_a_00000000.pdf''"
    by (simp add: ex_docx_pending_def)
  have d: "disk (st ex_docx_started)
      ''/tmp/conversions/00000000-0000-0000-0000-00000000000a_a_00000000.pdf'' = Some (File 0)"
    by (simp add: ex_docx_started_eq)
  have s: "(st ex_docx_started)\<lparr>disk := disk (st ex_docx_started)\<rparr> = st ex_docx_started"
    by simp
  show ?thesis
    unfolding ex_docx_finished_def ex_docx_run fst_conv snd_conv s
      process_finish_success [OF p d]
    by (simp add: ex_docx_started_eq Let_def) (simp add: ex_docx_pending_def)
qed

lemma ex_finished_eq:
  "ex_finished =
     \<lparr>st = \<lparr>conversion_jobs = [ex_id \<mapsto> ex_pending\<lparr>status := COMPLETED,
               converted_file_size := Some 2048, conversion_time := Some (round_2dp (1 - 0)),
               download_url := Some (''/api/download/'' @ ex_id), completed_at := Some 2\<rparr>],
             disk = [''/tmp/conversions/00000000-0000-0000-0000-000000000007_notes.txt'' \<mapsto> File 10,
                     ''/tmp/conversions/notes_00000000.pdf'' \<mapsto> File 2048]\<rparr>,
      queued = [], running = [], issued = {ex_id}\<rparr>"
proof -
  have "ex_finished = \<lparr>st = st ex_finished, queued = queued ex_finished,
      running = running ex_finished, issued = issued ex_finished\<rparr>" by simp
  moreover have "issued ex_finished = {ex_id}" by (simp add: ex_finished_def ex_started_eq)
  ultimately show ?thesis using ex_finished_st ex_finished_tasks by simp
qed

lemma ex_twin_eval:
  "uuid_str 8 = ''00000000-0000-0000-0000-000000000008''"
  "generate_unique_filename 5 ''notes.txt'' ''pdf'' = ''notes_00000000.pdf''"
  "path_join CONVERSION_DIR ''00000000-0000-0000-0000-000000000008_notes.txt''
     = ''/tmp/conversions/00000000-0000-0000-0000-000000000008_notes.txt''"
  "lstrip_dot (str_lower (path_suffix
      ''/tmp/conversions/00000000-0000-0000-0000-000000000008_notes.txt'')) = ''txt''"
  by code_simp+

lemma ex_twin_submit_eq:
  "ex_twin_submit =
     (Inr \<lparr>r_success = True, r_job_id = ex_twin_id, r_original_filename = ''notes.txt'',
           r_converted_filename = ''notes_00000000.pdf'', r_file_size = 10,
           r_converted_file_size = None, r_conversion_time = None,
           r_download_url = ''/api/download/00000000-0000-0000-0000-000000000008'',
           r_message = ''Conversion started successfully''\<rparr>,
      [ex_twin_pending],
      \<lparr>conversion_jobs = [ex_id \<mapsto> ex_pending\<lparr>status := COMPLETED,
               converted_file_size := Some 2048, conversion_time := Some (round_2dp (1 - 0)),
               download_url := Some (''/api/download/'' @ ex_id), completed_at := Some 2\<rparr>,
             ex_twin_id \<mapsto> ex_twin_pending],
       disk = [''/tmp/conversions/00000000-0000-0000-0000-000000000007_notes.txt'' \<mapsto> File 10,
               ''/tmp/conversions/notes_00000000.pdf'' \<mapsto> File 2048,
               ''/tmp/conversions/00000000-0000-0000-0000-000000000008_notes.txt'' \<mapsto> File 10]\<rparr>)"
  by (simp add: ex_twin_submit_def handle_conversion_def ex_twin_env_def ex_upload_def
      ex_eval ex_twin_eval ALLOWED_FORMATS_def save_uploaded_file_def os_path_getsize_def
      os_path_exists_def validate_file_def ex_finished_st ex_twin_pending_def ex_twin_id_def
      Let_def)

lemma ex_twin_submitted_eq:
  "ex_twin_submitted =
     \<lparr>st = \<lparr>conversion_jobs = [ex_id \<mapsto> ex_pending\<lparr>status := COMPLETED,
               converted_file_size := Some 2048, conversion_time := Some (round_2dp (1 - 0)),
               download_url := Some (''/api/download/'' @ ex_id), completed_at := Some 2\<rparr>,
             ex_twin_id \<mapsto> ex_twin_pending],
             disk = [''/tmp/conversions/00000000-0000-0000-0000-000000000007_notes.txt'' \<mapsto> File 10,
               ''/tmp/conversions/notes_00000000.pdf'' \<mapsto> File 2048,
               ''/tmp/conversions/00000000-0000-0000-0000-000000000008_notes.txt'' \<mapsto> File 10]\<rparr>,
      queued = [ex_twin_pending], running = [], issued = {ex_id, ex_twin_id}\<rparr>"
  by (simp add: ex_twin_submitted_def ex_twin_submit_eq ex_finished_eq)
     (auto simp: ex_twin_pending_def)

lemma step_ex_twin_submitted: "step ex_finished ex_twin_submitted"
  unfolding ex_twin_submitted_def
proof (rule step.submit)
  show "uuid_str (job_uuid ex_twin_env) \<notin> issued ex_finished"
    by (simp add: ex_twin_env_def ex_twin_eval ex_finished_eq ex_id_def)
  show "handle_conversion ex_twin_env ex_upload [] TXT_TO_PDF ''txt'' ''pdf'' (st ex_finished)
      = (fst ex_twin_submit, fst (snd ex_twin_submit), snd (snd ex_twin_submit))"
    by (simp add: ex_twin_submit_def)
qed

lemma step_ex_twin_cleaned: "step ex_twin_submitted ex_twin_cleaned"
  unfolding ex_twin_cleaned_def
  by (rule step.cleanup
        [where res = "fst (cleanup_conversion_files ex_twin_id (st ex_twin_submitted))"])
     simp

lemma ex_twin_cleaned_eq:
  "ex_twin_cleaned =
     \<lparr>st = \<lparr>conversion_jobs = [ex_id \<mapsto> ex_pending\<lparr>status := COMPLETED,
               converted_file_size := Some 2048, conversion_time := Some (round_2dp (1 - 0)),
               download_url := Some (''/api/download/'' @ ex_id), completed_at := Some 2\<rparr>],
             disk = [''/tmp/conversions/00000000-0000-0000-0000-000000000007_notes.txt'' \<mapsto> File 10]\<rparr>,
      queued = [ex_twin_pending], running = [], issued = {ex_id, ex_twin_id}\<rparr>"
proof -
  have f: "file_path ex_twin_pending
      = Some ''/tmp/conversions/00000000-0000-0000-0000-000000000008_notes.txt''"
    and c: "converted_file_path ex_twin_pending = Some ''/tmp/conversions/notes_00000000.pdf''"
    by (simp_all add: ex_twin_pending_def)
  have r: "[ex_id \<mapsto> j](ex_twin_id := None) = [ex_id \<mapsto> j]" for j :: ConversionJob
    using ex_ids_differ(2) by (auto simp: fun_eq_iff)
  have d: "([''/tmp/conversions/00000000-0000-0000-0000-000000000007_notes.txt'' \<mapsto> File 10,
             ''/tmp/conversions/notes_00000000.pdf'' \<mapsto> File 2048,
             ''/tmp/conversions/00000000-0000-0000-0000-000000000008_notes.txt'' \<mapsto> File 10])
           (''/tmp/conversions/00000000-0000-0000-0000-000000000008_notes.txt'' := None,
            ''/tmp/conversions/notes_00000000.pdf'' := None)
         = [''/tmp/conversions/00000000-0000-0000-0000-000000000007_notes.txt'' \<mapsto> File 10]"
    by (auto simp: fun_eq_iff)
  show ?thesis
    unfolding ex_twin_cleaned_def
    by (simp add: ex_twin_submitted_eq cleanup_conversion_files_def cleanup_if_set_def f c
        cleanup_file_def os_path_exists_def os_remove_def Let_def r d)
qed

lemma reachable_examples_more:
  "reachable ex_blank_submitted" "reachable ex_docx_submitted" "reachable ex_docx_started"
  "reachable ex_docx_finished" "reachable ex_twin_submitted" "reachable ex_twin_cleaned"
proof -
  show a: "reachable ex_blank_submitted"
    by (rule reachable.after [OF reachable.start step_ex_blank_submitted])
  show b: "reachable ex_docx_submitted" by (rule reachable.after [OF a step_ex_docx_submitted])
  show c: "reachable ex_docx_started" by (rule reachable.after [OF b step_ex_docx_started])
  show "reachable ex_docx_finished" by (rule reachable.after [OF c step_ex_docx_finished])
  show d: "reachable ex_twin_submitted"
    by (rule reachable.after [OF reachable_examples(3) step_ex_twin_submitted])
  show "reachable ex_twin_cleaned" by (rule reachable.after [OF d step_ex_twin_cleaned])
qed

section \<open>What leaves the background task, and the state it leaves behind\<close>

text \<open>
  Claim C1, as the code has it. The handler is \<^verbatim>\<open>except Exception\<close>: when the task is
  cancelled at the \<^verbatim>\<open>await\<close> of its routine, the \<^verbatim>\<open>CancelledError\<close> leaves
  \<^verbatim>\<open>process_conversion\<close>, and the \<^verbatim>\<open>finally\<close> block stores the job still PROCESSING, with no
  error message. In the service the job then stays PROCESSING with no task left to end it.
\<close>

theorem cancelled_task_stays_processing:
  "fst (process_conversion cancelled_converter 0 1 2 ex_job ex_state) = Some (BaseException [])
   \<and> status (fst (snd (process_conversion cancelled_converter 0 1 2 ex_job ex_state))) = PROCESSING
   \<and> error_message (fst (snd (process_conversion cancelled_converter 0 1 2 ex_job ex_state))) = None
   \<and> conversion_jobs (snd (snd (process_conversion cancelled_converter 0 1 2 ex_job ex_state))) ''j1''
       = Some (ex_job\<lparr>status := PROCESSING, completed_at := Some 2\<rparr>)
   \<and> reachable ex_cancelled \<and> \<not> in_flight ex_cancelled ex_id
   \<and> conversion_jobs (st ex_cancelled) ex_id
       = Some (ex_pending\<lparr>status := PROCESSING, completed_at := Some 2\<rparr>)"
proof -
  have "process_conversion cancelled_converter 0 1 2 ex_job ex_state =
      (Some (BaseException []), ex_job\<lparr>status := PROCESSING, completed_at := Some 2\<rparr>,
       ex_state\<lparr>conversion_jobs :=
         (conversion_jobs ex_state)(''j1'' \<mapsto> ex_job\<lparr>status := PROCESSING, completed_at := Some 2\<rparr>)\<rparr>)"
    by (simp add: process_conversion_eq invoke_converter_def select_converter_def
        cancelled_converter_def process_finish_uncaught Let_def)
       (simp add: ex_job_def ex_state_def)
  moreover have "error_message (ex_job\<lparr>status := PROCESSING, completed_at := Some 2\<rparr>) = None"
    by (simp add: ex_job_def)
  moreover have "\<not> in_flight ex_cancelled ex_id"
    by (simp add: in_flight_def ex_cancelled_eq)
  moreover have "conversion_jobs (st ex_cancelled) ex_id
       = Some (ex_pending\<lparr>status := PROCESSING, completed_at := Some 2\<rparr>)"
    by (simp add: ex_cancelled_eq)
  ultimately show ?thesis using reachable_examples(6) by simp
qed

text \<open>
  Claim C1, amended. For every job, every state and every behaviour of the conversion
  routine (it returns true or false, it raises, it leaves any files behind), the only
  exception that leaves \<^verbatim>\<open>process_conversion\<close> is one raised at the \<^verbatim>\<open>await\<close> that is not an
  \<^verbatim>\<open>Exception\<close>; the job is always stored under its id with \<^verbatim>\<open>completed_at\<close> set. When no
  exception leaves, the job is COMPLETED or FAILED, a FAILED job has a message, and
  whenever the body of the \<^verbatim>\<open>try\<close> raised the \<^verbatim>\<open>Exception\<close> \<open>e\<close> the job is FAILED with the
  message \<^verbatim>\<open>Conversion error: e\<close>. When an exception leaves, the job is stored as it was when
  the routine was awaited: PROCESSING, its message untouched.
\<close>

theorem process_conversion_exceptions:
  "case invoke_converter conv (job\<lparr>status := PROCESSING\<rparr>) (disk s) of
     (out, fs') \<Rightarrow>
       (case process_conversion conv t_start t_done t_final job s of
          (pending, job', s') \<Rightarrow>
            pending = (case out of Raises (BaseException m) \<Rightarrow> Some (BaseException m) | _ \<Rightarrow> None)
            \<and> conversion_jobs s' (job_id job) = Some job'
            \<and> completed_at job' = Some t_final
            \<and> (pending = None \<longrightarrow>
                  (status job' = COMPLETED \<or> status job' = FAILED)
                  \<and> (status job' = FAILED \<longrightarrow> error_message job' \<noteq> None)
                  \<and> (\<forall>e. fst (try_body t_start t_done out fs' (job\<lparr>status := PROCESSING\<rparr>))
                             = Some (Exception e) \<longrightarrow>
                         status job' = FAILED
                         \<and> error_message job' = Some (''Conversion error: '' @ e)))
            \<and> (pending \<noteq> None \<longrightarrow>
                  job' = job\<lparr>status := PROCESSING, completed_at := Some t_final\<rparr>))"
proof -
  obtain pending job' s' where
    p: "process_conversion conv t_start t_done t_final job s = (pending, job', s')"
    by (cases "process_conversion conv t_start t_done t_final job s") auto
  obtain out fs' where i: "invoke_converter conv (job\<lparr>status := PROCESSING\<rparr>) (disk s) = (out, fs')"
    by (cases "invoke_converter conv (job\<lparr>status := PROCESSING\<rparr>) (disk s)") auto
  note s = process_conversion_summary [OF p]
  have caught: "status job' = FAILED \<and> error_message job' = Some (''Conversion error: '' @ e)"
    if "fst (try_body t_start t_done out fs' (job\<lparr>status := PROCESSING\<rparr>)) = Some (Exception e)"
    for e
    using p that i
    by (auto simp: process_conversion_eq process_finish_def except_Exception_def Let_def
        split: prod.splits option.splits)
  have "pending = (case out of Raises (BaseException m) \<Rightarrow> Some (BaseException m) | _ \<Rightarrow> None)"
    using s(1) i by simp
  moreover have "conversion_jobs s' (job_id job) = Some job'" using s(3) by simp
  ultimately show ?thesis
    using s(4,5,7,8) caught by (simp add: p i)
qed

theorem process_conversion_exceptions_witness:
  "fst (process_conversion failing_converter 0 1 2 ex_job ex_state) = None
   \<and> status (fst (snd (process_conversion failing_converter 0 1 2 ex_job ex_state))) = FAILED
   \<and> error_message (fst (snd (process_conversion failing_converter 0 1 2 ex_job ex_state)))
       = Some ''Conversion error: boom''
   \<and> fst (snd (process_conversion cancelled_converter 0 1 2 ex_job ex_state))
       = ex_job\<lparr>status := PROCESSING, completed_at := Some 2\<rparr>"
proof -
  have a: "fst (process_conversion failing_converter 0 1 2 ex_job ex_state) = None
   \<and> status (fst (snd (process_conversion failing_converter 0 1 2 ex_job ex_state))) = FAILED
   \<and> error_message (fst (snd (process_conversion failing_converter 0 1 2 ex_job ex_state)))
       = Some ''Conversion error: boom''"
    using process_conversion_exceptions
      [where conv = failing_converter and t_start = 0 and t_done = 1 and t_final = 2
         and job = ex_job and s = ex_state]
    by (simp add: invoke_converter_def select_converter_def ex_job_def failing_converter_def
        try_body_def split: prod.splits)
  have b: "fst (snd (process_conversion cancelled_converter 0 1 2 ex_job ex_state))
       = ex_job\<lparr>status := PROCESSING, completed_at := Some 2\<rparr>"
    using process_conversion_exceptions
      [where conv = cancelled_converter and t_start = 0 and t_done = 1 and t_final = 2
         and job = ex_job and s = ex_state]
    by (simp add: invoke_converter_def select_converter_def ex_job_def cancelled_converter_def
        split: prod.splits)
  from a b show ?thesis by simp
qed

section \<open>Status transitions only go forward\<close>



section \<open>What a COMPLETED job carries\<close>

text \<open>
  Claim C3, as the code has it. Two runs of the service end with a job that reads
  COMPLETED without a converted file of positive size behind it.

  In the first, an empty file \<^verbatim>\<open>a_00000000.pdf\<close> is uploaded, then a Word document whose
  output path is the scratch file of that upload. LibreOffice exits with code 0 and
  writes nothing, \<^verbatim>\<open>word_to_pdf\<close> returns \<^verbatim>\<open>os.path.exists(output_path)\<close>, which is true, and
  the job is COMPLETED with \<^verbatim>\<open>converted_file_size\<close> 0: the size is never checked to be
  positive.

  In the second, a job is COMPLETED with its PDF on the disk; a second upload of the same
  file name gets the same output path (the same first eight characters of its file-name
  UUID) and is cleaned up, which removes the file at that path. The first job still reads
  COMPLETED with size 2048, the disk holds nothing at its path, and its download answers
  404.
\<close>

theorem completed_job_empty_or_missing_artifact:
  "reachable ex_docx_started
   \<and> disk (st ex_docx_started)
         (path_join ''/tmp/conversions''
            (path_stem ''/tmp/conversions/00000000-0000-0000-0000-00000000000b_00000000-0000-0000-0000-00000000000a_a.docx''
               @ ''.pdf'')) = None
   \<and> invoke_converter idle_libreoffice (ex_docx_pending\<lparr>status := PROCESSING\<rparr>)
         (disk (st ex_docx_started)) = (Returns True, disk (st ex_docx_started))
   \<and> step ex_docx_started ex_docx_finished
   \<and> status (the (conversion_jobs (st ex_docx_finished) ex_docx_id)) = COMPLETED
   \<and> converted_file_size (the (conversion_jobs (st ex_docx_finished) ex_docx_id)) = Some 0
   \<and> converted_file_path (the (conversion_jobs (st ex_docx_finished) ex_docx_id))
       = Some ''/tmp/conversions/00000000-0000-0000-0000-00000000000a_a_00000000.pdf''
   \<and> disk (st ex_docx_finished)
         ''/tmp/conversions/00000000-0000-0000-0000-00000000000a_a_00000000.pdf'' = Some (File 0)
   \<and> reachable ex_twin_cleaned
   \<and> status (the (conversion_jobs (st ex_twin_cleaned) ex_id)) = COMPLETED
   \<and> converted_file_size (the (conversion_jobs (st ex_twin_cleaned) ex_id)) = Some 2048
   \<and> converted_file_path (the (conversion_jobs (st ex_twin_cleaned) ex_id))
       = Some ''/tmp/conversions/notes_00000000.pdf''
   \<and> disk (st ex_twin_cleaned) ''/tmp/conversions/notes_00000000.pdf'' = None
   \<and> download_converted_file ex_id (st ex_twin_cleaned) = Inl FileMissing"
proof -
  have g: "disk (st ex_docx_started)
         (path_join ''/tmp/conversions''
            (path_stem ''/tmp/conversions/00000000-0000-0000-0000-00000000000b_00000000-0000-0000-0000-00000000000a_a.docx''
               @ ''.pdf'')) = None"
    unfolding ex_docx_generated_pdf by (simp add: ex_docx_started_eq)
  have a: "status (the (conversion_jobs (st ex_docx_finished) ex_docx_id)) = COMPLETED
   \<and> converted_file_size (the (conversion_jobs (st ex_docx_finished) ex_docx_id)) = Some 0
   \<and> converted_file_path (the (conversion_jobs (st ex_docx_finished) ex_docx_id))
       = Some ''/tmp/conversions/00000000-0000-0000-0000-00000000000a_a_00000000.pdf''"
    by (simp add: ex_docx_finished_eq) (simp add: ex_docx_pending_def)
  have b: "disk (st ex_docx_finished)
         ''/tmp/conversions/00000000-0000-0000-0000-00000000000a_a_00000000.pdf'' = Some (File 0)"
    by (simp add: ex_docx_finished_eq)
  have c: "status (the (conversion_jobs (st ex_twin_cleaned) ex_id)) = COMPLETED
   \<and> converted_file_size (the (conversion_jobs (st ex_twin_cleaned) ex_id)) = Some 2048
   \<and> converted_file_path (the (conversion_jobs (st ex_twin_cleaned) ex_id))
       = Some ''/tmp/conversions/notes_00000000.pdf''"
    by (simp add: ex_twin_cleaned_eq) (simp add: ex_pending_def)
  have d: "disk (st ex_twin_cleaned) ''/tmp/conversions/notes_00000000.pdf'' = None"
    by (simp add: ex_twin_cleaned_eq)
  have e: "download_converted_file ex_id (st ex_twin_cleaned) = Inl FileMissing"
    using c d
    by (simp add: download_converted_file_def FileMissing_def os_path_exists_def
        ex_twin_cleaned_eq)
  from g a b c d e ex_docx_run step_ex_docx_finished reachable_examples_more(3,6)
  show ?thesis by blast
qed

text \<open>
  Claim C3, amended. Whenever the background task stores a job as COMPLETED, at that
  moment \<^verbatim>\<open>download_url\<close> is set, the converted file is on the disk and
  \<^verbatim>\<open>converted_file_size\<close> is the size it has then, which may be 0: so it is for every
  behaviour of the routine in \<^verbatim>\<open>process_conversion\<close>, and for every step of the service from
  a reachable state that stores a COMPLETED job. Every COMPLETED job read from a reachable
  registry has \<^verbatim>\<open>download_url\<close>, \<^verbatim>\<open>converted_file_size\<close> and \<^verbatim>\<open>converted_file_path\<close> set; the
  file itself may have been removed or replaced since.
\<close>

theorem completed_job_has_artifact:
  "(case process_conversion conv t_start t_done t_final job s of
      (pending, job', s') \<Rightarrow>
        status job' = COMPLETED \<longrightarrow>
          download_url job' \<noteq> None
          \<and> (\<exists>p n. converted_file_path job' = Some p \<and> disk s' p = Some n
                 \<and> converted_file_size job' = Some (st_size n)))
   \<and> (reachable w \<and> step w w' \<and> conversion_jobs (st w') jid = Some j'
        \<and> status j' = COMPLETED \<and> conversion_jobs (st w) jid \<noteq> Some j' \<longrightarrow>
        download_url j' \<noteq> None
        \<and> (\<exists>p n. converted_file_path j' = Some p \<and> disk (st w') p = Some n
               \<and> converted_file_size j' = Some (st_size n)))
   \<and> (reachable w \<longrightarrow>
        (\<forall>jid j. conversion_jobs (st w) jid = Some j \<longrightarrow> status j = COMPLETED \<longrightarrow>
           download_url j \<noteq> None \<and> converted_file_size j \<noteq> None
           \<and> converted_file_path j \<noteq> None))"
proof (intro conjI)
  have "download_url job' \<noteq> None
          \<and> (\<exists>p n. converted_file_path job' = Some p \<and> disk s' p = Some n
                 \<and> converted_file_size job' = Some (st_size n))"
    if f: "process_finish t_start t_done t_final out (job\<lparr>status := PROCESSING\<rparr>) z
             = (pending, job', s')"
      and c: "status job' = COMPLETED"
    for out z pending job' s'
    using process_finish_completed [OF f c] by simp
  then show "case process_conversion conv t_start t_done t_final job s of
      (pending, job', s') \<Rightarrow>
        status job' = COMPLETED \<longrightarrow>
          download_url job' \<noteq> None
          \<and> (\<exists>p n. converted_file_path job' = Some p \<and> disk s' p = Some n
                 \<and> converted_file_size job' = Some (st_size n))"
    unfolding process_conversion_eq by (auto split: prod.splits)
  show "reachable w \<and> step w w' \<and> conversion_jobs (st w') jid = Some j'
        \<and> status j' = COMPLETED \<and> conversion_jobs (st w) jid \<noteq> Some j' \<longrightarrow>
        download_url j' \<noteq> None
        \<and> (\<exists>p n. converted_file_path j' = Some p \<and> disk (st w') p = Some n
               \<and> converted_file_size j' = Some (st_size n))"
    using step_completed_artifact [of w w' jid j'] by blast
  show "reachable w \<longrightarrow>
        (\<forall>jid j. conversion_jobs (st w) jid = Some j \<longrightarrow> status j = COMPLETED \<longrightarrow>
           download_url j \<noteq> None \<and> converted_file_size j \<noteq> None
           \<and> converted_file_path j \<noteq> None)"
    using reachable_consistent [of w] by (auto simp: consistent_def entry_ok_def job_ok_def)
qed

theorem completed_job_has_artifact_witness:
  "download_url (fst (snd (process_conversion (writing_converter 2048) 0 1 2 ex_job ex_state)))
     \<noteq> None
   \<and> disk (snd (snd (process_conversion (writing_converter 2048) 0 1 2 ex_job ex_state)))
         ''/tmp/conversions/notes_0000abcd.pdf'' \<noteq> None
   \<and> reachable ex_started \<and> step ex_started ex_finished
   \<and> disk (st ex_finished) ''/tmp/conversions/notes_00000000.pdf'' = Some (File 2048)
   \<and> converted_file_size (ex_pending\<lparr>status := COMPLETED, converted_file_size := Some 2048,
                       conversion_time := Some (round_2dp (1 - 0)),
                       download_url := Some (''/api/download/'' @ ex_id),
                       completed_at := Some 2\<rparr>) \<noteq> None"
proof -
  let ?done = "ex_pending\<lparr>status := COMPLETED, converted_file_size := Some 2048,
                       conversion_time := Some (round_2dp (1 - 0)),
                       download_url := Some (''/api/download/'' @ ex_id),
                       completed_at := Some 2\<rparr>"
  note t = completed_job_has_artifact
    [where conv = "writing_converter 2048" and t_start = 0 and t_done = 1 and t_final = 2
       and job = ex_job and s = ex_state and w = ex_started and w' = ex_finished
       and jid = ex_id and j' = ?done]
  have c: "status (ex_job\<lparr>status := COMPLETED, converted_file_size := Some 2048,
              conversion_time := Some (round_2dp (1 - 0)),
              download_url := Some ''/api/download/j1'', completed_at := Some 2\<rparr>) = COMPLETED"
    by simp
  from t [THEN conjunct1] c
  have a: "download_url (fst (snd (process_conversion (writing_converter 2048) 0 1 2 ex_job ex_state)))
      \<noteq> None
    \<and> disk (snd (snd (process_conversion (writing_converter 2048) 0 1 2 ex_job ex_state)))
         ''/tmp/conversions/notes_0000abcd.pdf'' \<noteq> None"
    by (simp add: ex_written_run)
  have cd: "status ?done = COMPLETED" by simp
  have ch: "conversion_jobs (st ex_started) ex_id \<noteq> Some ?done"
  proof
    assume "conversion_jobs (st ex_started) ex_id = Some ?done"
    then have "ex_pending\<lparr>status := PROCESSING\<rparr> = ?done" by (simp add: ex_started_eq)
    then have "status (ex_pending\<lparr>status := PROCESSING\<rparr>) = status ?done" by (rule arg_cong)
    then show False by simp
  qed
  from t [THEN conjunct2, THEN conjunct1]
    reachable_examples(2) step_ex_finished ex_finished_registry cd ch
  have "\<exists>p n. converted_file_path ?done = Some p \<and> disk (st ex_finished) p = Some n
      \<and> converted_file_size ?done = Some (st_size n)" by blast
  then have b: "disk (st ex_finished) ''/tmp/conversions/notes_00000000.pdf'' = Some (File 2048)"
    by (auto simp: ex_pending_def ex_finished_st)
  from completed_job_has_artifact [where w = ex_finished, THEN conjunct2, THEN conjunct2,
      rule_format, OF reachable_examples(3) ex_finished_registry cd]
  have d: "converted_file_size ?done \<noteq> None" by simp
  from a b d reachable_examples(2) step_ex_finished show ?thesis by blast
qed

section \<open>Validation at submission\<close>

text \<open>
  Claim C4. A file name whose extension is not in the whitelist of the conversion type is
  refused with InvalidFormat (400) before anything else happens: the registry, the disk
  and the list of background tasks are unchanged, whatever the size of the upload. When
  the extension is accepted and the upload is written, a size above 50 MiB is refused
  with FileTooLarge (400): the scratch file is removed again, the registry and the list
  of background tasks are unchanged.
\<close>

theorem validation_fails_fast:
  "(lstrip_dot (str_lower (path_suffix (filename upload))) \<notin> set (ALLOWED_FORMATS conversion_type) \<longrightarrow>
      handle_conversion env upload bt conversion_type from_fmt to_fmt s
        = (Inl (InvalidFormat conversion_type), bt, s))
   \<and> (lstrip_dot (str_lower (path_suffix (filename upload))) \<in> set (ALLOWED_FORMATS conversion_type)
        \<and> io env = Saved \<and> 50 * 1024 * 1024 < content_length upload \<longrightarrow>
      handle_conversion env upload bt conversion_type from_fmt to_fmt s
        = (Inl FileTooLarge, bt,
           s\<lparr>disk := (disk s)
                (path_join CONVERSION_DIR (uuid_str (job_uuid env) @ ''_'' @ filename upload)
                   := None)\<rparr>))"
  using handle_conversion_invalid_format [of upload conversion_type env bt from_fmt to_fmt s]
    handle_conversion_too_large [of upload conversion_type env bt from_fmt to_fmt s]
  by (simp add: InvalidFormat_def FileTooLarge_def)

theorem validation_fails_fast_witness:
  "handle_conversion ex_env ex_exe_upload [] IMAGE_TO_PDF ''image'' ''pdf'' ex_state
     = (Inl (InvalidFormat IMAGE_TO_PDF), [], ex_state)
   \<and> handle_conversion ex_env ex_big_upload [] WORD_TO_PDF ''word'' ''pdf'' ex_state
     = (Inl FileTooLarge, [],
        ex_state\<lparr>disk := (disk ex_state)
           (path_join CONVERSION_DIR (uuid_str (job_uuid ex_env) @ ''_'' @ filename ex_big_upload)
              := None)\<rparr>)"
proof -
  have a: "lstrip_dot (str_lower (path_suffix (filename ex_exe_upload)))
             \<notin> set (ALLOWED_FORMATS IMAGE_TO_PDF)"
    by (simp add: ex_exe_upload_def ex_ext_eval ALLOWED_FORMATS_def)
  have b: "lstrip_dot (str_lower (path_suffix (filename ex_big_upload)))
             \<in> set (ALLOWED_FORMATS WORD_TO_PDF)
           \<and> io ex_env = Saved \<and> 50 * 1024 * 1024 < content_length ex_big_upload"
    by (simp add: ex_big_upload_def ex_ext_eval ALLOWED_FORMATS_def ex_env_def)
  from validation_fails_fast [THEN conjunct1, rule_format, OF a]
    validation_fails_fast [THEN conjunct2, rule_format, OF b]
  show ?thesis by blast
qed

section \<open>The outcome recorded by the background task\<close>

text \<open>
  Claim C5, as the code has it. A routine that raises does not always give a FAILED job:
  the \<^verbatim>\<open>CancelledError\<close> raised at the \<^verbatim>\<open>await\<close> of a cancelled task is not caught by
  \<^verbatim>\<open>except Exception\<close>, so only \<^verbatim>\<open>completed_at\<close> is set and the stored job is PROCESSING
  without a message.
\<close>

theorem raising_routine_not_failed:
  "invoke_converter cancelled_converter (ex_pending\<lparr>status := PROCESSING\<rparr>)
       (disk (st ex_submitted))
     = (Raises (BaseException []), disk (st ex_submitted))
   \<and> status (fst (snd (process_conversion cancelled_converter 0 1 2 ex_pending (st ex_submitted))))
       \<noteq> FAILED
   \<and> error_message
        (fst (snd (process_conversion cancelled_converter 0 1 2 ex_pending (st ex_submitted))))
       = None
   \<and> completed_at
        (fst (snd (process_conversion cancelled_converter 0 1 2 ex_pending (st ex_submitted))))
       = Some 2"
proof -
  have i: "invoke_converter cancelled_converter (ex_pending\<lparr>status := PROCESSING\<rparr>)
       (disk (st ex_submitted))
     = (Raises (BaseException []), disk (st ex_submitted))"
    by (simp add: invoke_converter_def select_converter_ex_pending cancelled_converter_def)
  have "fst (snd (process_conversion cancelled_converter 0 1 2 ex_pending (st ex_submitted)))
      = ex_pending\<lparr>status := PROCESSING, completed_at := Some 2\<rparr>"
    by (simp add: process_conversion_eq i process_finish_uncaught Let_def)
  moreover have "error_message (ex_pending\<lparr>status := PROCESSING, completed_at := Some 2\<rparr>) = None"
    by (simp add: ex_pending_def)
  ultimately show ?thesis using i by simp
qed

text \<open>
  Claim C5, amended. When the routine returns true and the output path exists on the disk
  it leaves, the job is COMPLETED, its \<^verbatim>\<open>converted_file_size\<close> is the size of that file, its
  \<^verbatim>\<open>conversion_time\<close> is the elapsed time rounded to two decimals, its \<^verbatim>\<open>download_url\<close>
  is \<^verbatim>\<open>/api/download/<id>\<close> and \<^verbatim>\<open>completed_at\<close> is set. When the routine returns false,
  returns true without the output on the disk, or raises an \<^verbatim>\<open>Exception\<close>, the job is FAILED
  with a message and \<^verbatim>\<open>completed_at\<close> set. When an exception that is not an \<^verbatim>\<open>Exception\<close> is
  raised at the \<^verbatim>\<open>await\<close>, it leaves the task and the job is stored PROCESSING with only
  \<^verbatim>\<open>completed_at\<close> set.
\<close>

theorem process_conversion_outcome:
  "case process_conversion conv t_start t_done t_final job s of
     (pending, job', s') \<Rightarrow>
       (case invoke_converter conv (job\<lparr>status := PROCESSING\<rparr>) (disk s) of
          (out, fs') \<Rightarrow>
            if out = Returns True
               \<and> (case converted_file_path job of None \<Rightarrow> False | Some p \<Rightarrow> os_path_exists fs' p)
            then pending = None \<and> status job' = COMPLETED
                 \<and> (\<exists>p n. converted_file_path job = Some p \<and> os_path_getsize fs' p = Inr n
                        \<and> converted_file_size job' = Some n)
                 \<and> conversion_time job' = Some (round_2dp (t_done - t_start))
                 \<and> download_url job' = Some (''/api/download/'' @ job_id job)
                 \<and> completed_at job' = Some t_final
            else if \<exists>m. out = Raises (BaseException m)
            then pending = (case out of Raises x \<Rightarrow> Some x | Returns b \<Rightarrow> None)
                 \<and> job' = job\<lparr>status := PROCESSING, completed_at := Some t_final\<rparr>
            else pending = None \<and> status job' = FAILED \<and> error_message job' \<noteq> None
                 \<and> completed_at job' = Some t_final)"
proof -
  let ?job1 = "job\<lparr>status := PROCESSING\<rparr>"
  obtain out fs' where i: "invoke_converter conv ?job1 (disk s) = (out, fs')"
    by (cases "invoke_converter conv ?job1 (disk s)") auto
  let ?s1 = "s\<lparr>conversion_jobs := (conversion_jobs s)(job_id job \<mapsto> ?job1), disk := fs'\<rparr>"
  have pc: "process_conversion conv t_start t_done t_final job s
      = process_finish t_start t_done t_final out ?job1 ?s1"
    by (simp add: process_conversion_eq i)
  consider p n where "out = Returns True" "converted_file_path job = Some p" "fs' p = Some n"
    | m where "out = Raises (BaseException m)"
    | "\<not> (out = Returns True \<and> (\<exists>p. converted_file_path job = Some p \<and> fs' p \<noteq> None))"
      "\<forall>m. out \<noteq> Raises (BaseException m)"
    by (cases "out = Returns True \<and> (\<exists>p. converted_file_path job = Some p \<and> fs' p \<noteq> None)")
       auto
  then show ?thesis
  proof cases
    case 1
    have "converted_file_path ?job1 = Some p" "disk ?s1 p = Some n" using 1 by simp_all
    from process_finish_success [OF this, of t_start t_done t_final]
    show ?thesis
      using 1 by (simp add: pc i Let_def os_path_exists_def os_path_getsize_def)
  next
    case 2
    from process_finish_uncaught [of t_start t_done t_final m ?job1 ?s1]
    show ?thesis using 2 by (simp add: pc i Let_def)
  next
    case 3
    then have "\<not> (out = Returns True
        \<and> (\<exists>p. converted_file_path ?job1 = Some p \<and> disk ?s1 p \<noteq> None))" by simp
    from process_finish_failure [OF this 3(2), of t_start t_done t_final]
    obtain msg where "process_finish t_start t_done t_final out ?job1 ?s1 =
       (let job' = ?job1\<lparr>status := FAILED, error_message := Some msg, completed_at := Some t_final\<rparr>
        in (None, job', ?s1\<lparr>conversion_jobs := (conversion_jobs ?s1)(job_id ?job1 \<mapsto> job')\<rparr>))"
      by blast
    then show ?thesis
      using 3 by (auto simp: pc i Let_def os_path_exists_def split: option.splits)
  qed
qed

theorem process_conversion_outcome_witness:
  "status (fst (snd (process_conversion (writing_converter 2048) 0 (1234 / 1000) 2 ex_job ex_state)))
     = COMPLETED
   \<and> converted_file_size
        (fst (snd (process_conversion (writing_converter 2048) 0 (1234 / 1000) 2 ex_job ex_state)))
     = Some 2048
   \<and> conversion_time
        (fst (snd (process_conversion (writing_converter 2048) 0 (1234 / 1000) 2 ex_job ex_state)))
     = Some (123 / 100)
   \<and> status (fst (snd (process_conversion failing_converter 0 1 2 ex_job ex_state))) = FAILED
   \<and> fst (process_conversion cancelled_converter 0 1 2 ex_job ex_state) = Some (BaseException [])"
  using process_conversion_outcome
    [where conv = "writing_converter 2048" and t_start = 0 and t_done = "1234 / 1000"
       and t_final = 2 and job = ex_job and s = ex_state]
    process_conversion_outcome
    [where conv = failing_converter and t_start = 0 and t_done = 1 and t_final = 2
       and job = ex_job and s = ex_state]
    process_conversion_outcome
    [where conv = cancelled_converter and t_start = 0 and t_done = 1 and t_final = 2
       and job = ex_job and s = ex_state]
  by (auto simp: invoke_converter_def select_converter_def ex_job_def ex_state_def
      failing_converter_def writing_converter_def cancelled_converter_def
      os_path_exists_def os_path_getsize_def round_2dp_def Let_def split: prod.splits)

section \<open>The download URL is there exactly for COMPLETED jobs\<close>

text \<open>
  Claim C6. In every reachable state, a job of the registry has a \<^verbatim>\<open>download_url\<close>
  exactly when its status is COMPLETED, and the status route answers with a
  \<^verbatim>\<open>download_url\<close> exactly then: none for PENDING, PROCESSING and FAILED jobs.
\<close>

theorem download_url_iff_completed:
  "reachable w \<Longrightarrow> conversion_jobs (st w) jid = Some job \<Longrightarrow>
     ((download_url job \<noteq> None) = (status job = COMPLETED))
     \<and> (\<exists>r. get_conversion_status jid (st w) = Inr r
            \<and> st_status r = status_value (status job)
            \<and> ((st_download_url r \<noteq> None) = (status job = COMPLETED)))"
proof -
  assume r: "reachable w" and j: "conversion_jobs (st w) jid = Some job"
  from reachable_job_ok [OF r j]
  have ok: "(download_url job \<noteq> None) = (status job = COMPLETED)" by (simp add: job_ok_def)
  then show ?thesis using j by (simp add: get_conversion_status_def)
qed

theorem download_url_iff_completed_witness:
  "map_sum id (\<lambda>r. st_download_url r \<noteq> None) (get_conversion_status ex_id (st ex_finished))
     = Inr True
   \<and> map_sum id (\<lambda>r. st_download_url r \<noteq> None) (get_conversion_status ex_id (st ex_started))
     = Inr False"
proof -
  have s: "conversion_jobs (st ex_started) ex_id = Some (ex_pending\<lparr>status := PROCESSING\<rparr>)"
    by (simp add: ex_started_eq)
  from download_url_iff_completed [OF reachable_examples(3) ex_finished_registry]
    download_url_iff_completed [OF reachable_examples(2) s]
  show ?thesis by auto
qed

section \<open>The download route\<close>

text \<open>
  Claim C7. The download route fails with JobNotFound (404) for an id that is not in the
  registry, with NotReady (400) for a job that is not COMPLETED (PENDING, PROCESSING and
  FAILED alike), with FileMissing (404) for a COMPLETED job whose converted file is not on
  the disk, and answers with the stream of the converted file otherwise. In every
  reachable state a COMPLETED job has its \<^verbatim>\<open>converted_file_path\<close> set, so these four
  cases are all there are.
\<close>

theorem download_outcomes:
  "(conversion_jobs s jid = None \<longrightarrow> download_converted_file jid s = Inl JobNotFound)
   \<and> (\<forall>job. conversion_jobs s jid = Some job \<and> status job \<noteq> COMPLETED \<longrightarrow>
          download_converted_file jid s = Inl NotReady)
   \<and> (\<forall>job p. conversion_jobs s jid = Some job \<and> status job = COMPLETED
          \<and> converted_file_path job = Some p \<longrightarrow>
          download_converted_file jid s =
            (if os_path_exists (disk s) p
             then Inr \<lparr>fr_path = Some p, fr_filename = converted_filename job,
                       fr_media_type = ''application/octet-stream''\<rparr>
             else Inl FileMissing))
   \<and> (reachable w \<longrightarrow>
        (\<forall>job. conversion_jobs (st w) jid = Some job \<and> status job = COMPLETED \<longrightarrow>
           converted_file_path job \<noteq> None))"
proof (intro conjI allI impI)
  assume "conversion_jobs s jid = None"
  then show "download_converted_file jid s = Inl JobNotFound"
    by (simp add: download_converted_file_def JobNotFound_def)
next
  fix job assume "conversion_jobs s jid = Some job \<and> status job \<noteq> COMPLETED"
  then show "download_converted_file jid s = Inl NotReady"
    by (simp add: download_converted_file_def NotReady_def)
next
  fix job p
  assume "conversion_jobs s jid = Some job \<and> status job = COMPLETED
          \<and> converted_file_path job = Some p"
  then show "download_converted_file jid s =
            (if os_path_exists (disk s) p
             then Inr \<lparr>fr_path = Some p, fr_filename = converted_filename job,
                       fr_media_type = ''application/octet-stream''\<rparr>
             else Inl FileMissing)"
    by (simp add: download_converted_file_def FileMissing_def)
next
  fix job
  assume "reachable w" and "conversion_jobs (st w) jid = Some job \<and> status job = COMPLETED"
  then show "converted_file_path job \<noteq> None"
    using reachable_job_ok [of w jid job] by (simp add: job_ok_def)
qed

theorem download_outcomes_witness:
  "download_converted_file ''unknown'' (st ex_finished) = Inl JobNotFound
   \<and> download_converted_file ex_id (st ex_started) = Inl NotReady
   \<and> download_converted_file ex_id ex_lost = Inl FileMissing
   \<and> download_converted_file ex_id (st ex_finished) =
        Inr \<lparr>fr_path = Some ''/tmp/conversions/notes_00000000.pdf'',
             fr_filename = ''notes_00000000.pdf'', fr_media_type = ''application/octet-stream''\<rparr>
   \<and> converted_file_path (the (conversion_jobs (st ex_finished) ex_id)) \<noteq> None"
proof -
  note f = ex_finished_st
  have u: "conversion_jobs (st ex_finished) ''unknown'' = None"
    by (simp add: f ex_id_def)
  have n: "conversion_jobs (st ex_started) ex_id = Some (ex_pending\<lparr>status := PROCESSING\<rparr>)
      \<and> status (ex_pending\<lparr>status := PROCESSING\<rparr>) \<noteq> COMPLETED"
    by (simp add: ex_started_eq)
  have l: "conversion_jobs ex_lost ex_id = Some ex_done \<and> status ex_done = COMPLETED
      \<and> converted_file_path ex_done = Some ''/tmp/conversions/notes_00000000.pdf''"
    by (simp add: ex_lost_def ex_done_def ex_pending_def)
  have c: "conversion_jobs (st ex_finished) ex_id = Some (ex_pending\<lparr>status := COMPLETED,
          converted_file_size := Some 2048, conversion_time := Some (round_2dp (1 - 0)),
          download_url := Some (''/api/download/'' @ ex_id), completed_at := Some 2\<rparr>)
      \<and> status (ex_pending\<lparr>status := COMPLETED,
          converted_file_size := Some 2048, conversion_time := Some (round_2dp (1 - 0)),
          download_url := Some (''/api/download/'' @ ex_id), completed_at := Some 2\<rparr>) = COMPLETED"
    by (simp add: f)
  have c': "conversion_jobs (st ex_finished) ex_id = Some (ex_pending\<lparr>status := COMPLETED,
          converted_file_size := Some 2048, conversion_time := Some (round_2dp (1 - 0)),
          download_url := Some (''/api/download/'' @ ex_id), completed_at := Some 2\<rparr>)
      \<and> status (ex_pending\<lparr>status := COMPLETED,
          converted_file_size := Some 2048, conversion_time := Some (round_2dp (1 - 0)),
          download_url := Some (''/api/download/'' @ ex_id), completed_at := Some 2\<rparr>) = COMPLETED
      \<and> converted_file_path (ex_pending\<lparr>status := COMPLETED,
          converted_file_size := Some 2048, conversion_time := Some (round_2dp (1 - 0)),
          download_url := Some (''/api/download/'' @ ex_id), completed_at := Some 2\<rparr>)
          = Some ''/tmp/conversions/notes_00000000.pdf''"
    using c by (simp add: ex_pending_def)
  note t1 = download_outcomes [THEN conjunct1, rule_format, OF u]
  note t2 = download_outcomes [THEN conjunct2, THEN conjunct1, rule_format, OF n]
  note t3 = download_outcomes [THEN conjunct2, THEN conjunct2, THEN conjunct1, rule_format, OF l]
  note t4 = download_outcomes [THEN conjunct2, THEN conjunct2, THEN conjunct1, rule_format, OF c']
  note t5 = download_outcomes [THEN conjunct2, THEN conjunct2, THEN conjunct2, rule_format,
      OF reachable_examples(3) c]
  have e1: "\<not> os_path_exists (disk ex_lost) ''/tmp/conversions/notes_00000000.pdf''"
    by (simp add: ex_lost_def os_path_exists_def)
  have e2: "os_path_exists (disk (st ex_finished)) ''/tmp/conversions/notes_00000000.pdf''"
    by (simp add: f os_path_exists_def)
  have e3: "converted_filename (ex_pending\<lparr>status := COMPLETED,
          converted_file_size := Some 2048, conversion_time := Some (round_2dp (1 - 0)),
          download_url := Some (''/api/download/'' @ ex_id), completed_at := Some 2\<rparr>)
          = ''notes_00000000.pdf''" by (simp add: ex_pending_def)
  from t1 t2 t3 t4 t5 e1 e2 e3 c show ?thesis by simp
qed

section \<open>Cleanup\<close>

text \<open>
  Claim C8, at an input where the code departs from it. A text file is submitted; its
  background task stores the job as PROCESSING and awaits the conversion routine; a
  cleanup request for the id arrives meanwhile, succeeds and removes the entry, so that a
  status request now fails with JobNotFound; then the routine returns, and the
  \<^verbatim>\<open>finally\<close> block of the task (line 70) stores the job again: the next status
  request for the id is answered with \<^verbatim>\<open>completed\<close> and the download route serves a
  file, although the cleanup of this id has succeeded.
\<close>

theorem cleanup_during_conversion:
  "reachable ex_started
   \<and> conversion_jobs (st ex_started) ex_id = Some (ex_pending\<lparr>status := PROCESSING\<rparr>)
   \<and> fst (cleanup_conversion_files ex_id (st ex_started)) = Inr ''Files cleaned up successfully''
   \<and> st ex_cleaned = snd (cleanup_conversion_files ex_id (st ex_started))
   \<and> get_conversion_status ex_id (st ex_cleaned) = Inl JobNotFound
   \<and> step ex_cleaned ex_resumed
   \<and> reachable ex_resumed
   \<and> get_conversion_status ex_id (st ex_resumed) \<noteq> Inl JobNotFound
   \<and> map_sum id st_status (get_conversion_status ex_id (st ex_resumed)) = Inr ''completed''
   \<and> isl (download_converted_file ex_id (st ex_resumed)) = False"
proof -
  have f: "conversion_jobs (st ex_started) ex_id = Some (ex_pending\<lparr>status := PROCESSING\<rparr>)"
    by (simp add: ex_started_eq)
  have a: "fst (cleanup_conversion_files ex_id (st ex_started)) = Inr ''Files cleaned up successfully''"
    by (simp add: ex_started_eq cleanup_conversion_files_def Let_def)
  have b: "st ex_cleaned = snd (cleanup_conversion_files ex_id (st ex_started))"
    by (simp add: ex_cleaned_def)
  have c: "conversion_jobs (st ex_cleaned) ex_id = None" by (simp add: ex_cleaned_eq)
  have d: "disk (st ex_resumed) ''/tmp/conversions/notes_00000000.pdf'' = Some (File 2048)"
    by (simp add: ex_resumed_def ex_cleaned_eq
      process_finish_success [where p = "''/tmp/conversions/notes_00000000.pdf''" and n = "File 2048"]
      ex_pending_def Let_def)
  have e: "get_conversion_status ex_id (st ex_resumed) \<noteq> Inl JobNotFound"
    "map_sum id st_status (get_conversion_status ex_id (st ex_resumed)) = Inr ''completed''"
    by (simp_all add: get_conversion_status_def ex_resumed_registry)
  have g: "isl (download_converted_file ex_id (st ex_resumed)) = False"
    by (simp add: download_converted_file_def ex_resumed_registry d os_path_exists_def
        ex_pending_def)
  show ?thesis
    using reachable_examples(2) f a b unknown_job_not_found(1) [OF c] step_ex_resumed
      reachable_examples(5) e g
    by blast
qed

text \<open>
  Property X1: cleanup when no background task interferes. For an id in the
  registry, cleanup succeeds, removes the entry and removes the regular files at the job's
  two paths (a path that cannot be removed is left there silently); on the state it
  leaves, status, download and a second cleanup fail with JobNotFound (404). For an id
  that is not in the registry the three operations fail with JobNotFound. When no
  background task of the job is queued or suspended at the time of the cleanup, the id
  stays absent through every later run of the service, so the three operations fail with
  JobNotFound from then on.
\<close>

theorem cleanup_removes_job:
  "(\<forall>job. conversion_jobs s jid = Some job \<longrightarrow>
      (case cleanup_conversion_files jid s of
         (res, s') \<Rightarrow>
           res = Inr ''Files cleaned up successfully''
           \<and> conversion_jobs s' = (conversion_jobs s)(jid := None)
           \<and> (\<forall>p n. (file_path job = Some p \<or> converted_file_path job = Some p) \<and> p \<noteq> []
                  \<and> disk s p = Some (File n) \<longrightarrow> disk s' p = None)
           \<and> get_conversion_status jid s' = Inl JobNotFound
           \<and> download_converted_file jid s' = Inl JobNotFound
           \<and> cleanup_conversion_files jid s' = (Inl JobNotFound, s')))
   \<and> (conversion_jobs s jid = None \<longrightarrow>
        get_conversion_status jid s = Inl JobNotFound
        \<and> download_converted_file jid s = Inl JobNotFound
        \<and> cleanup_conversion_files jid s = (Inl JobNotFound, s))
   \<and> (\<forall>job res s'. reachable w \<and> conversion_jobs (st w) jid = Some job \<and> \<not> in_flight w jid
        \<and> cleanup_conversion_files jid (st w) = (res, s') \<and> step\<^sup>*\<^sup>* (w\<lparr>st := s'\<rparr>) w'' \<longrightarrow>
        get_conversion_status jid (st w'') = Inl JobNotFound
        \<and> download_converted_file jid (st w'') = Inl JobNotFound
        \<and> cleanup_conversion_files jid (st w'') = (Inl JobNotFound, st w''))"
proof (intro conjI allI impI)
  fix job assume j: "conversion_jobs s jid = Some job"
  obtain res s' where c: "cleanup_conversion_files jid s = (res, s')"
    by (cases "cleanup_conversion_files jid s") auto
  have r: "res = Inr ''Files cleaned up successfully''"
    using c j by (auto simp: cleanup_conversion_files_def Let_def)
  have g: "conversion_jobs s' = (conversion_jobs s)(jid := None)"
    using c by (rule cleanup_registry)
  then have n: "conversion_jobs s' jid = None" by simp
  have f: "disk s' p = None"
    if "(file_path job = Some p \<or> converted_file_path job = Some p) \<and> p \<noteq> []
          \<and> disk s p = Some (File n)" for p n
    using cleanup_removes_files [OF c j, of p n] that by blast
  show "case cleanup_conversion_files jid s of
         (res, s') \<Rightarrow>
           res = Inr ''Files cleaned up successfully''
           \<and> conversion_jobs s' = (conversion_jobs s)(jid := None)
           \<and> (\<forall>p n. (file_path job = Some p \<or> converted_file_path job = Some p) \<and> p \<noteq> []
                  \<and> disk s p = Some (File n) \<longrightarrow> disk s' p = None)
           \<and> get_conversion_status jid s' = Inl JobNotFound
           \<and> download_converted_file jid s' = Inl JobNotFound
           \<and> cleanup_conversion_files jid s' = (Inl JobNotFound, s')"
    unfolding c prod.case
    using r g f unknown_job_not_found [OF n] by blast
next
  assume n: "conversion_jobs s jid = None"
  show "get_conversion_status jid s = Inl JobNotFound" by (rule unknown_job_not_found(1) [OF n])
  show "download_converted_file jid s = Inl JobNotFound" by (rule unknown_job_not_found(2) [OF n])
  show "cleanup_conversion_files jid s = (Inl JobNotFound, s)"
    by (rule unknown_job_not_found(3) [OF n])
next
  fix job res s'
  assume a: "reachable w \<and> conversion_jobs (st w) jid = Some job \<and> \<not> in_flight w jid
        \<and> cleanup_conversion_files jid (st w) = (res, s') \<and> step\<^sup>*\<^sup>* (w\<lparr>st := s'\<rparr>) w''"
  then have n: "conversion_jobs (st w'') jid = None"
    using cleaned_stays_absent [of w jid job res s' w''] by blast
  show "get_conversion_status jid (st w'') = Inl JobNotFound"
    by (rule unknown_job_not_found(1) [OF n])
  show "download_converted_file jid (st w'') = Inl JobNotFound"
    by (rule unknown_job_not_found(2) [OF n])
  show "cleanup_conversion_files jid (st w'') = (Inl JobNotFound, st w'')"
    by (rule unknown_job_not_found(3) [OF n])
qed

theorem cleanup_removes_job_witness:
  "fst (cleanup_conversion_files ex_id (st ex_finished)) = Inr ''Files cleaned up successfully''
   \<and> get_conversion_status ex_id (snd (cleanup_conversion_files ex_id (st ex_finished)))
       = Inl JobNotFound
   \<and> disk (snd (cleanup_conversion_files ex_id (st ex_finished)))
        ''/tmp/conversions/notes_00000000.pdf'' = None
   \<and> get_conversion_status ''unknown'' (st ex_finished) = Inl JobNotFound
   \<and> get_conversion_status ex_id
        (st (ex_finished\<lparr>st := snd (cleanup_conversion_files ex_id
               (snd (cleanup_conversion_files ex_id (st ex_finished))))\<rparr>)) = Inl JobNotFound"
proof -
  let ?J = "ex_pending\<lparr>status := COMPLETED,
          converted_file_size := Some 2048, conversion_time := Some (round_2dp (1 - 0)),
          download_url := Some (''/api/download/'' @ ex_id), completed_at := Some 2\<rparr>"
  let ?c = "cleanup_conversion_files ex_id (st ex_finished)"
  let ?w1 = "ex_finished\<lparr>st := snd ?c\<rparr>"
  let ?w2 = "?w1\<lparr>st := snd (cleanup_conversion_files ex_id (st ?w1))\<rparr>"
  note t = cleanup_removes_job [where s = "st ex_finished" and jid = ex_id and w = ex_finished
      and w'' = ?w2]
  note t1 = t [THEN conjunct1, rule_format, OF ex_finished_registry]
  have p: "(file_path ?J = Some ''/tmp/conversions/notes_00000000.pdf''
            \<or> converted_file_path ?J = Some ''/tmp/conversions/notes_00000000.pdf'')
           \<and> ''/tmp/conversions/notes_00000000.pdf'' \<noteq> []
           \<and> disk (st ex_finished) ''/tmp/conversions/notes_00000000.pdf'' = Some (File 2048)"
    by (simp add: ex_finished_st ex_pending_def)
  from t1 have a: "fst ?c = Inr ''Files cleaned up successfully''"
    and b: "get_conversion_status ex_id (snd ?c) = Inl JobNotFound"
    and d: "\<forall>p n. (file_path ?J = Some p \<or> converted_file_path ?J = Some p) \<and> p \<noteq> []
                  \<and> disk (st ex_finished) p = Some (File n) \<longrightarrow> disk (snd ?c) p = None"
    by (simp_all split: prod.splits)
  from d p have e: "disk (snd ?c) ''/tmp/conversions/notes_00000000.pdf'' = None" by blast
  have u: "conversion_jobs (st ex_finished) ''unknown'' = None"
    by (simp add: ex_finished_st ex_id_def)
  note t2 = cleanup_removes_job [where s = "st ex_finished" and jid = "''unknown''",
      THEN conjunct2, THEN conjunct1, rule_format, OF u]
  have nf: "\<not> in_flight ex_finished ex_id" by (simp add: in_flight_def ex_finished_tasks)
  have s2: "step ?w1 ?w2"
    by (rule step.cleanup [where res = "fst (cleanup_conversion_files ex_id (st ?w1))"]) simp
  have h: "reachable ex_finished \<and> conversion_jobs (st ex_finished) ex_id = Some ?J
      \<and> \<not> in_flight ex_finished ex_id
      \<and> cleanup_conversion_files ex_id (st ex_finished) = (fst ?c, snd ?c)
      \<and> step\<^sup>*\<^sup>* ?w1 ?w2"
    using reachable_examples(3) ex_finished_registry nf s2 by simp
  note t3 = t [THEN conjunct2, THEN conjunct2, rule_format, OF h]
  from a b e t2 t3 show ?thesis by simp
qed

section \<open>Progress reported by the status route\<close>

text \<open>
  Claim C9. For an id in the registry the status route answers with the job's status and
  a progress that depends on the status only: 0 for PENDING, 50 for PROCESSING, 100 for
  COMPLETED, 0 for FAILED. Right after a successful submission, the status of the new job
  is \<^verbatim>\<open>pending\<close> with progress 0.
\<close>

theorem status_progress:
  "(\<forall>job. conversion_jobs s jid = Some job \<longrightarrow>
      (\<exists>r. get_conversion_status jid s = Inr r
           \<and> st_status r = status_value (status job)
           \<and> st_progress r =
               (case status job of PENDING \<Rightarrow> 0 | PROCESSING \<Rightarrow> 50 | COMPLETED \<Rightarrow> 100
                | FAILED \<Rightarrow> 0)))
   \<and> (\<forall>resp tasks s'.
        handle_conversion env upload bt conversion_type from_fmt to_fmt s0 = (Inr resp, tasks, s') \<longrightarrow>
        (\<exists>r. get_conversion_status (r_job_id resp) s' = Inr r
             \<and> st_status r = ''pending'' \<and> st_progress r = 0))"
proof (intro conjI allI impI)
  fix job assume "conversion_jobs s jid = Some job"
  then show "\<exists>r. get_conversion_status jid s = Inr r
           \<and> st_status r = status_value (status job)
           \<and> st_progress r =
               (case status job of PENDING \<Rightarrow> 0 | PROCESSING \<Rightarrow> 50 | COMPLETED \<Rightarrow> 100
                | FAILED \<Rightarrow> 0)"
    by (cases "status job") (simp_all add: get_conversion_status_def)
next
  fix resp tasks s'
  assume h: "handle_conversion env upload bt conversion_type from_fmt to_fmt s0 = (Inr resp, tasks, s')"
  from handle_conversion_cases [OF h]
  obtain job where "r_job_id resp = job_id job"
    "conversion_jobs s' = (conversion_jobs s0)(job_id job \<mapsto> job)" "status job = PENDING"
    by auto
  then show "\<exists>r. get_conversion_status (r_job_id resp) s' = Inr r
             \<and> st_status r = ''pending'' \<and> st_progress r = 0"
    by (simp add: get_conversion_status_def)
qed

theorem status_progress_witness:
  "map_sum id st_progress (get_conversion_status ex_id (st ex_finished)) = Inr 100
   \<and> map_sum id st_progress (get_conversion_status ex_id (st ex_started)) = Inr 50
   \<and> map_sum id st_status (get_conversion_status ex_id (snd (snd ex_submit))) = Inr ''pending''
   \<and> map_sum id st_progress (get_conversion_status ex_id (snd (snd ex_submit))) = Inr 0"
proof -
  note fin = status_progress [where s = "st ex_finished" and jid = ex_id, THEN conjunct1,
      rule_format, OF ex_finished_registry]
  have "conversion_jobs (st ex_started) ex_id = Some (ex_pending\<lparr>status := PROCESSING\<rparr>)"
    by (simp add: ex_started_eq)
  note run = status_progress [where s = "st ex_started" and jid = ex_id, THEN conjunct1,
      rule_format, OF this]
  note sub = status_progress [THEN conjunct2, rule_format,
      OF ex_submit_eq [unfolded ex_submit_def]]
  from fin run sub show ?thesis
    by (auto simp: ex_submit_eq)
qed

section \<open>The extension check ignores letter case\<close>

text \<open>
  Claim C10. Both extension checks (of the uploaded file name in \<^verbatim>\<open>handle_conversion\<close>,
  of the stored path in \<^verbatim>\<open>validate_file\<close>) refuse exactly when the lower-cased suffix,
  without its dot, is not in the whitelist; so two file names with the same lower-cased
  suffix are both refused or both let through, and \<^verbatim>\<open>photo.PNG\<close> passes the check for
  image-to-pdf.
\<close>

theorem extension_check_ignores_case:
  "((fst (handle_conversion env upload bt conversion_type from_fmt to_fmt s)
       = Inl (InvalidFormat conversion_type))
     = (lstrip_dot (str_lower (path_suffix (filename upload)))
          \<notin> set (ALLOWED_FORMATS conversion_type)))
   \<and> ((validate_file fs path allowed
         = (False, ''Invalid file type. Allowed: '' @ join '', '' allowed))
       = (lstrip_dot (str_lower (path_suffix path)) \<notin> set allowed))
   \<and> (str_lower (path_suffix (filename upload)) = str_lower (path_suffix (filename upload')) \<longrightarrow>
        (fst (handle_conversion env upload bt conversion_type from_fmt to_fmt s)
           = Inl (InvalidFormat conversion_type))
        = (fst (handle_conversion env' upload' bt' conversion_type from_fmt' to_fmt' s')
             = Inl (InvalidFormat conversion_type)))
   \<and> fst (handle_conversion env (upload\<lparr>filename := ''photo.PNG''\<rparr>) bt IMAGE_TO_PDF from_fmt to_fmt s)
        \<noteq> Inl (InvalidFormat IMAGE_TO_PDF)"
proof -
  have iff: "(fst (handle_conversion e u b t ff tf z) = Inl (InvalidFormat t))
      = (lstrip_dot (str_lower (path_suffix (filename u))) \<notin> set (ALLOWED_FORMATS t))"
    for e u b t ff tf z
    using handle_conversion_invalid_format [of u t e b ff tf z]
      handle_conversion_not_invalid_format [of u t e b ff tf z]
    by (auto simp: InvalidFormat_def)
  have png: "lstrip_dot (str_lower (path_suffix (filename (upload\<lparr>filename := ''photo.PNG''\<rparr>))))
      \<in> set (ALLOWED_FORMATS IMAGE_TO_PDF)"
    by (simp add: ex_ext_eval ALLOWED_FORMATS_def)
  show ?thesis
    apply (intro conjI)
       apply (rule iff)
      apply (rule validate_file_invalid_type)
     apply (simp add: iff)
    using png apply (simp add: iff)
    done
qed

theorem extension_check_ignores_case_witness:
  "str_lower (path_suffix (filename ex_png_upload))
     = str_lower (path_suffix (filename (ex_png_upload\<lparr>filename := ''photo.png''\<rparr>)))
   \<and> fst (handle_conversion ex_env ex_png_upload [] IMAGE_TO_PDF ''image'' ''pdf'' ex_state)
        \<noteq> Inl (InvalidFormat IMAGE_TO_PDF)
   \<and> fst (handle_conversion ex_env (ex_png_upload\<lparr>filename := ''photo.png''\<rparr>) []
             IMAGE_TO_PDF ''image'' ''pdf'' ex_state)
        \<noteq> Inl (InvalidFormat IMAGE_TO_PDF)"
proof -
  have e: "str_lower (path_suffix (filename ex_png_upload))
     = str_lower (path_suffix (filename (ex_png_upload\<lparr>filename := ''photo.png''\<rparr>)))"
    by (simp add: ex_png_upload_def ex_case_eval)
  have u: "ex_png_upload\<lparr>filename := ''photo.PNG''\<rparr> = ex_png_upload"
    by (simp add: ex_png_upload_def)
  note t = extension_check_ignores_case
    [where upload = ex_png_upload and upload' = "ex_png_upload\<lparr>filename := ''photo.png''\<rparr>"
       and env = ex_env and env' = ex_env and bt = "[]" and bt' = "[]"
       and from_fmt = "''image''" and from_fmt' = "''image''" and to_fmt = "''pdf''"
       and to_fmt' = "''pdf''" and s = ex_state and s' = ex_state
       and conversion_type = IMAGE_TO_PDF]
  from t [THEN conjunct2, THEN conjunct2, THEN conjunct2] u
  have p: "fst (handle_conversion ex_env ex_png_upload [] IMAGE_TO_PDF ''image'' ''pdf'' ex_state)
        \<noteq> Inl (InvalidFormat IMAGE_TO_PDF)" by simp
  from t [THEN conjunct2, THEN conjunct2, THEN conjunct1, rule_format, OF e] p e
  show ?thesis by simp
qed

end
